theory Spec2Isabelle
  imports Main "HOL-Library.AList"
begin

section \<open>JavaScript values of the storage module\<close>

text \<open>
  The storage module (\<^verbatim>\<open>src/js/storage.js\<close>) works on what \<^verbatim>\<open>JSON.parse\<close> returns and on
  what it builds itself: null, booleans, numbers, strings and plain objects. Numbers are
  modelled as integers, strings as byte strings (UTF-8), and a plain object as the list of its own
  properties in creation order; a lookup reads the first pair with the key. Arrays are not
  part of the persisted record format and are not modelled.
\<close>

datatype jsval =
    JNull
  | JBool bool
  | JNum int
  | JStr string
  | JObj "(string \<times> jsval) list"

type_synonym props = "(string \<times> jsval) list"

text \<open>Exceptions the module can meet. \<open>OutsideModel\<close> marks what the model does not
  compute: a dynamic property read on a primitive value, which would go through a wrapper
  prototype, and the printing of a number that is not a safe integer.\<close>

datatype js_error =
    TypeError
  | SyntaxError
  | DOMException string "int option"
  | OutsideModel

datatype 'a outcome = Returns 'a | Throws js_error

subsection \<open>Truthiness and \<^verbatim>\<open>typeof\<close>\<close>

fun truthy :: "jsval \<Rightarrow> bool" where
  "truthy JNull = False"
| "truthy (JBool b) = b"
| "truthy (JNum n) = (n \<noteq> 0)"
| "truthy (JStr s) = (s \<noteq> [])"
| "truthy (JObj ps) = True"

fun typeof :: "jsval \<Rightarrow> string" where
  "typeof JNull = ''object''"
| "typeof (JBool b) = ''boolean''"
| "typeof (JNum n) = ''number''"
| "typeof (JStr s) = ''string''"
| "typeof (JObj ps) = ''object''"

text \<open>A property read gives \<open>None\<close> for \<^verbatim>\<open>undefined\<close>.\<close>

fun truthy_opt :: "jsval option \<Rightarrow> bool" where
  "truthy_opt None = False"
| "truthy_opt (Some v) = truthy v"

fun typeof_opt :: "jsval option \<Rightarrow> string" where
  "typeof_opt None = ''undefined''"
| "typeof_opt (Some v) = typeof v"

text \<open>The test \<^verbatim>\<open>!x || typeof x !== 'object'\<close>.\<close>

definition not_object :: "jsval option \<Rightarrow> bool" where
  "not_object x = (\<not> truthy_opt x \<or> typeof_opt x \<noteq> ''object'')"

fun props_of :: "jsval option \<Rightarrow> props" where
  "props_of (Some (JObj ps)) = ps"
| "props_of _ = []"

subsection \<open>Properties\<close>

text \<open>
  A read of a property with a fixed name (\<^verbatim>\<open>data.version\<close>, \<^verbatim>\<open>year.sections\<close>, ...) on an
  object: none of the names the module uses is a member of \<^verbatim>\<open>Object.prototype\<close>, so the read
  is a read of the object's own property.
\<close>

definition field :: "props \<Rightarrow> string \<Rightarrow> jsval option" where
  "field ps name = map_of ps name"

text \<open>An assignment \<^verbatim>\<open>obj[k] = v\<close> to an own property or to a new one: an existing property
  keeps its place, a new one goes last.\<close>

definition set_prop :: "props \<Rightarrow> string \<Rightarrow> jsval \<Rightarrow> props" where
  "set_prop ps k v = AList.update k v ps"

definition delete_prop :: "props \<Rightarrow> string \<Rightarrow> props" where
  "delete_prop ps k = AList.delete k ps"

text \<open>The members every plain object inherits from \<^verbatim>\<open>Object.prototype\<close>. Each is a function,
  except \<^verbatim>\<open>__proto__\<close>, which reads as the prototype object: all of them are truthy, and none
  has a property \<^verbatim>\<open>sections\<close> or \<^verbatim>\<open>answers\<close>.\<close>

definition object_prototype_keys :: "string list" where
  "object_prototype_keys =
     [''constructor'', ''hasOwnProperty'', ''isPrototypeOf'', ''propertyIsEnumerable'',
      ''toLocaleString'', ''toString'', ''valueOf'', ''__proto__'',
      ''__defineGetter__'', ''__defineSetter__'', ''__lookupGetter__'', ''__lookupSetter__'']"

datatype lookup = Undefined | Own jsval | Inherited

text \<open>A read \<^verbatim>\<open>obj[k]\<close> with a computed key: the own property, else the inherited member.\<close>

definition js_get :: "props \<Rightarrow> string \<Rightarrow> lookup" where
  "js_get ps k =
     (case map_of ps k of
        Some v \<Rightarrow> Own v
      | None \<Rightarrow> if k \<in> set object_prototype_keys then Inherited else Undefined)"

fun lookup_truthy :: "lookup \<Rightarrow> bool" where
  "lookup_truthy Undefined = False"
| "lookup_truthy (Own v) = truthy v"
| "lookup_truthy Inherited = True"

subsection \<open>\<^verbatim>\<open>Object.keys\<close>\<close>

text \<open>Own keys come in the order of ECMAScript: the array indices (canonical decimal
  strings below \<open>2^32 - 1\<close>) ascending, then the other keys in creation order.\<close>

definition is_digit :: "char \<Rightarrow> bool" where
  "is_digit c = ((48::nat) \<le> of_char c \<and> of_char c \<le> (57::nat))"

definition digits_value :: "string \<Rightarrow> int" where
  "digits_value s = foldl (\<lambda>acc c. 10 * acc + (of_char c - 48)) (0::int) s"

definition is_array_index :: "string \<Rightarrow> bool" where
  "is_array_index s =
     (s \<noteq> [] \<and> list_all is_digit s \<and> (s = ''0'' \<or> hd s \<noteq> CHR ''0'')
      \<and> length s \<le> 10 \<and> digits_value s < 4294967295)"

definition own_keys :: "props \<Rightarrow> string list" where
  "own_keys ps = rev (remdups (rev (map fst ps)))"

definition object_keys :: "props \<Rightarrow> string list" where
  "object_keys ps =
     sort_key digits_value (filter is_array_index (own_keys ps))
       @ filter (\<lambda>k. \<not> is_array_index k) (own_keys ps)"

subsection \<open>Conversion to a property key\<close>

function show_nat :: "nat \<Rightarrow> string" where
  "show_nat n =
     (if n < 10 then [char_of (48 + n)]
      else show_nat (n div 10) @ [char_of (48 + n mod 10)])"
  by pat_completeness auto
termination
  by (relation "measure id") auto

definition show_int :: "int \<Rightarrow> string" where
  "show_int i = (if i < 0 then CHR ''-'' # show_nat (nat (- i)) else show_nat (nat i))"

text \<open>
  A number of JavaScript is a double. The integers that a double holds exactly, one by
  one, are those between \<^verbatim>\<open>Number.MIN_SAFE_INTEGER\<close> and \<^verbatim>\<open>Number.MAX_SAFE_INTEGER\<close>
  (\<^verbatim>\<open>2^53 - 1\<close>), and \<^verbatim>\<open>Number::toString\<close> prints each of them as its decimal digits.
\<close>

definition MAX_SAFE_INTEGER :: int where
  "MAX_SAFE_INTEGER = 9007199254740991"

definition safe_integer :: "int \<Rightarrow> bool" where
  "safe_integer n = (- MAX_SAFE_INTEGER \<le> n \<and> n \<le> MAX_SAFE_INTEGER)"

text \<open>
  \<^verbatim>\<open>data.years[data.currentYear]\<close> converts the key with \<^verbatim>\<open>ToPropertyKey\<close>. A string is its
  own key; a boolean is printed; a safe integer is printed as its decimal digits; a plain
  object is printed by \<^verbatim>\<open>Object.prototype.toString\<close>, unless it has an own property
  \<^verbatim>\<open>toString\<close>: a value from JSON is not callable, \<^verbatim>\<open>valueOf\<close> gives no primitive either,
  and the conversion throws \<^verbatim>\<open>TypeError\<close>. Beyond the safe integers the printed form is the
  shortest decimal that reads back as the same double (\<^verbatim>\<open>2^64\<close> prints as
  \<^verbatim>\<open>18446744073709552000\<close>, and from \<^verbatim>\<open>1e21\<close> on with an exponent): the model does not
  print such a number, and the conversion is \<^const>\<open>OutsideModel\<close>.
\<close>

fun to_property_key :: "jsval \<Rightarrow> string outcome" where
  "to_property_key JNull = Returns ''null''"
| "to_property_key (JBool b) = Returns (if b then ''true'' else ''false'')"
| "to_property_key (JNum n) =
     (if safe_integer n then Returns (show_int n) else Throws OutsideModel)"
| "to_property_key (JStr s) = Returns s"
| "to_property_key (JObj ps) =
     (if map_of ps ''toString'' \<noteq> None then Throws TypeError
      else Returns ''[object Object]'')"

section \<open>The store\<close>

text \<open>The payload \<^verbatim>\<open>{ type, message, originalError }\<close> of a storage error.\<close>

datatype storage_error =
  StorageError (etype: string) (emessage: string) (original: "js_error option")

text \<open>
  \<^verbatim>\<open>localStorage\<close>: the stored items, what \<^verbatim>\<open>setItem\<close> throws for a key and a value in a
  given content (nothing, when it stores), and what any access throws when storage is
  disabled. \<open>writes\<close> is a history of the \<^verbatim>\<open>setItem\<close> calls that stored.
\<close>

record backend =
  items :: "(string \<times> string) list"
  set_fault :: "(string \<times> string) list \<Rightarrow> string \<Rightarrow> string \<Rightarrow> js_error option"
  access_fault :: "js_error option"
  writes :: "(string \<times> string) list"

text \<open>
  The module's variables \<^verbatim>\<open>storageData\<close>, \<^verbatim>\<open>onStorageError\<close> (the registered callback, by
  identity) and \<^verbatim>\<open>saveTimeout\<close> (the pending timer, by the time in ms at which it is due),
  with the console, the calls made to the callback, and the backend.
\<close>

record store =
  storageData :: jsval
  onStorageError :: "nat option"
  notified :: "(nat \<times> storage_error) list"
  console :: "string list"
  saveTimeout :: "nat option"
  backend :: backend

definition STORAGE_KEY :: string where
  "STORAGE_KEY = ''yearcompass_data''"

definition DATA_VERSION :: int where
  "DATA_VERSION = 1"

definition setStorageErrorCallback :: "nat option \<Rightarrow> store \<Rightarrow> store" where
  "setStorageErrorCallback callback st = st\<lparr>onStorageError := callback\<rparr>"

definition reportStorageError :: "string \<Rightarrow> string \<Rightarrow> js_error option \<Rightarrow> store \<Rightarrow> store" where
  "reportStorageError ty msg originalError st =
     (let st1 = st\<lparr>console := console st @ [''Storage error ['' @ ty @ '']:'']\<rparr>
      in case onStorageError st1 of
           None \<Rightarrow> st1
         | Some cb \<Rightarrow> st1\<lparr>notified := notified st1 @ [(cb, StorageError ty msg originalError)]\<rparr>)"

definition default_settings :: jsval where
  "default_settings =
     JObj [(''theme'', JStr ''light''), (''fontSize'', JStr ''medium''),
           (''markdownPreview'', JStr ''onBlur'')]"

definition getDefaultData :: jsval where
  "getDefaultData =
     JObj [(''version'', JNum DATA_VERSION), (''currentYear'', JNull),
           (''settings'', default_settings), (''years'', JObj [])]"

section \<open>Validation and repair\<close>

text \<open>\<^verbatim>\<open>yearId.replace('-', ' \<rightarrow> ')\<close>: the first hyphen becomes an arrow (U+2192, three
  bytes in UTF-8) between two spaces.\<close>

fun replace_first :: "char \<Rightarrow> string \<Rightarrow> string \<Rightarrow> string" where
  "replace_first c r [] = []"
| "replace_first c r (x # xs) = (if x = c then r @ xs else x # replace_first c r xs)"

definition display_name :: "string \<Rightarrow> string" where
  "display_name yearId =
     replace_first (CHR ''-'') ('' '' @ [CHR 0xE2, CHR 0x86, CHR 0x92] @ '' '') yearId"

record vr_result =
  valid :: bool
  repaired :: bool
  data :: jsval

definition default_section :: jsval where
  "default_section = JObj [(''completed'', JBool False), (''answers'', JObj [])]"

text \<open>The body of the loop over \<^verbatim>\<open>Object.keys(year.sections)\<close> (lines 126 to 135), on the
  sections object and the flag \<^verbatim>\<open>repaired\<close>. The key is an own key, so the read is a read of
  the own property.\<close>

definition repair_section :: "string \<Rightarrow> props \<times> bool \<Rightarrow> props \<times> bool" where
  "repair_section sectionId = (\<lambda>(sections, rep).
     let section = field sections sectionId in
     if not_object section then
       (set_prop sections sectionId default_section, True)
     else if not_object (field (props_of section) ''answers'') then
       (set_prop sections sectionId (JObj (set_prop (props_of section) ''answers'' (JObj []))),
        True)
     else (sections, rep))"

text \<open>Lines 116 to 119: the backfill of \<^verbatim>\<open>id\<close>, \<^verbatim>\<open>displayName\<close>, \<^verbatim>\<open>createdAt\<close> and
  \<^verbatim>\<open>lastModified\<close>. \<open>now\<close> is \<^verbatim>\<open>new Date().toISOString()\<close>. \<^verbatim>\<open>year.createdAt\<close> is set when
  \<^verbatim>\<open>year.lastModified\<close> is assigned from it.\<close>

definition backfill_year :: "string \<Rightarrow> string \<Rightarrow> props \<Rightarrow> props" where
  "backfill_year now yearId y0 =
     (let y1 = (if \<not> truthy_opt (field y0 ''id'')
                then set_prop y0 ''id'' (JStr yearId) else y0);
          y2 = (if \<not> truthy_opt (field y1 ''displayName'')
                then set_prop y1 ''displayName'' (JStr (display_name yearId)) else y1);
          y3 = (if \<not> truthy_opt (field y2 ''createdAt'')
                then set_prop y2 ''createdAt'' (JStr now) else y2)
      in if \<not> truthy_opt (field y3 ''lastModified'')
         then (case field y3 ''createdAt'' of
                 Some c \<Rightarrow> set_prop y3 ''lastModified'' c
               | None \<Rightarrow> y3)
         else y3)"

text \<open>The body of the loop over \<^verbatim>\<open>Object.keys(data.years)\<close> (lines 106 to 136), on the years
  object and the flag.\<close>

definition repair_year :: "string \<Rightarrow> string \<Rightarrow> props \<times> bool \<Rightarrow> props \<times> bool" where
  "repair_year now yearId = (\<lambda>(years, rep).
     let year = field years yearId in
     if not_object year then (delete_prop years yearId, True)
     else
       let y4 = backfill_year now yearId (props_of year);
           (y5, r5) = (if not_object (field y4 ''sections'')
                       then (set_prop y4 ''sections'' (JObj []), True) else (y4, rep));
           secs = props_of (field y5 ''sections'');
           (secs', r6) = fold repair_section (object_keys secs) (secs, r5)
       in (set_prop years yearId (JObj (set_prop y5 ''sections'' (JObj secs'))), r6))"

text \<open>Lines 98 to 103: a truthy \<^verbatim>\<open>currentYear\<close> whose read in \<^verbatim>\<open>years\<close> is falsy becomes the
  last of \<^verbatim>\<open>Object.keys(data.years)\<close>, or null when there is none.\<close>

definition repair_currentYear :: "props \<times> bool \<Rightarrow> (props \<times> bool) outcome" where
  "repair_currentYear = (\<lambda>(d, rep).
     case field d ''currentYear'' of
       None \<Rightarrow> Returns (d, rep)
     | Some cy \<Rightarrow>
         if \<not> truthy cy then Returns (d, rep)
         else (case to_property_key cy of
                 Throws e \<Rightarrow> Throws e
               | Returns k \<Rightarrow>
                   let years = props_of (field d ''years'') in
                   if \<not> lookup_truthy (js_get years k) then
                     let yearIds = object_keys years
                     in Returns (set_prop d ''currentYear''
                                   (if length yearIds > 0 then JStr (last yearIds) else JNull),
                                 True)
                   else Returns (d, rep)))"

text \<open>Lines 82 to 96: \<^verbatim>\<open>version\<close>, \<^verbatim>\<open>settings\<close>, \<^verbatim>\<open>years\<close>.\<close>

definition repair_toplevel :: "props \<Rightarrow> props \<times> bool" where
  "repair_toplevel d0 =
     (let (d1, r1) = (if typeof_opt (field d0 ''version'') \<noteq> ''number''
                      then (set_prop d0 ''version'' (JNum DATA_VERSION), True)
                      else (d0, False));
          (d2, r2) = (if not_object (field d1 ''settings'')
                      then (set_prop d1 ''settings'' default_settings, True) else (d1, r1));
          (d3, r3) = (if not_object (field d2 ''years'')
                      then (set_prop d2 ''years'' (JObj []), True) else (d2, r2))
      in (d3, r3))"

definition validateAndRepairData :: "string \<Rightarrow> jsval \<Rightarrow> store \<Rightarrow> vr_result outcome \<times> store" where
  "validateAndRepairData now d st =
     (if \<not> truthy d \<or> typeof d \<noteq> ''object'' then
        (Returns \<lparr>valid = False, repaired = False, data = getDefaultData\<rparr>,
         reportStorageError ''corrupt''
           ''Stored data is not a valid object. Starting fresh.'' None st)
      else
        case repair_currentYear (repair_toplevel (props_of (Some d))) of
          Throws e \<Rightarrow> (Throws e, st)
        | Returns (d4, r4) \<Rightarrow>
            let years = props_of (field d4 ''years'');
                (years', r5) = fold (repair_year now) (object_keys years) (years, r4);
                d5 = set_prop d4 ''years'' (JObj years');
                st' = (if r5
                       then st\<lparr>console := console st
                                  @ [''Data structure was repaired during validation'']\<rparr>
                       else st)
            in (Returns \<lparr>valid = True, repaired = r5, data = JObj d5\<rparr>, st'))"

section \<open>The backend and persistence\<close>

text \<open>\<^verbatim>\<open>JSON.parse\<close> (\<open>None\<close> when it throws \<^verbatim>\<open>SyntaxError\<close>), \<^verbatim>\<open>JSON.stringify(x)\<close> and
  \<^verbatim>\<open>JSON.stringify(x, null, 2)\<close> are the platform's: they are parameters of the model.\<close>

record json_api =
  json_parse :: "string \<Rightarrow> jsval option"
  json_stringify :: "jsval \<Rightarrow> string"
  json_stringify_pretty :: "jsval \<Rightarrow> string"

definition setItem :: "string \<Rightarrow> string \<Rightarrow> backend \<Rightarrow> unit outcome \<times> backend" where
  "setItem k v b =
     (case access_fault b of
        Some e \<Rightarrow> (Throws e, b)
      | None \<Rightarrow>
          (case set_fault b (items b) k v of
             Some e \<Rightarrow> (Throws e, b)
           | None \<Rightarrow> (Returns (), b\<lparr>items := AList.update k v (items b),
                                        writes := writes b @ [(k, v)]\<rparr>)))"

definition getItem :: "string \<Rightarrow> backend \<Rightarrow> string option outcome" where
  "getItem k b =
     (case access_fault b of
        Some e \<Rightarrow> Throws e
      | None \<Rightarrow> Returns (map_of (items b) k))"

definition removeItem :: "string \<Rightarrow> backend \<Rightarrow> unit outcome \<times> backend" where
  "removeItem k b =
     (case access_fault b of
        Some e \<Rightarrow> (Throws e, b)
      | None \<Rightarrow> (Returns (), b\<lparr>items := AList.delete k (items b)\<rparr>))"

definition testKey :: string where
  "testKey = ''__yearcompass_test__''"

text \<open>Lines 40 to 50: the probe writes, reads and removes the test key; any exception gives
  false.\<close>

definition probe :: "backend \<Rightarrow> bool \<times> backend" where
  "probe b =
     (case setItem testKey ''test'' b of
        (Throws e, b1) \<Rightarrow> (False, b1)
      | (Returns u, b1) \<Rightarrow>
          (case getItem testKey b1 of
             Throws e \<Rightarrow> (False, b1)
           | Returns result \<Rightarrow>
               (case removeItem testKey b1 of
                  (Throws e, b2) \<Rightarrow> (False, b2)
                | (Returns u', b2) \<Rightarrow> (result = Some ''test'', b2))))"

definition isLocalStorageAvailable :: "store \<Rightarrow> bool \<times> store" where
  "isLocalStorageAvailable st =
     (let (ok, b) = probe (backend st) in (ok, st\<lparr>backend := b\<rparr>))"

fun error_name :: "js_error \<Rightarrow> string" where
  "error_name TypeError = ''TypeError''"
| "error_name SyntaxError = ''SyntaxError''"
| "error_name (DOMException n c) = n"
| "error_name OutsideModel = []"

fun error_code :: "js_error \<Rightarrow> int option" where
  "error_code (DOMException n c) = c"
| "error_code _ = None"

definition is_quota_error :: "js_error \<Rightarrow> bool" where
  "is_quota_error e =
     (error_name e = ''QuotaExceededError'' \<or> error_code e = Some 22
      \<or> error_code e = Some 1014 \<or> error_name e = ''NS_ERROR_DOM_QUOTA_REACHED'')"

text \<open>Lines 203 to 232.\<close>

definition saveToLocalStorage :: "json_api \<Rightarrow> store \<Rightarrow> bool \<times> store" where
  "saveToLocalStorage J st =
     (let (ok, st1) = isLocalStorageAvailable st in
      if \<not> ok then (False, st1)
      else
        (case setItem STORAGE_KEY (json_stringify J (storageData st1)) (backend st1) of
           (Returns u, b) \<Rightarrow> (True, st1\<lparr>backend := b\<rparr>)
         | (Throws e, b) \<Rightarrow>
             (False,
              if is_quota_error e then
                reportStorageError ''quota''
                  ''Storage is full. Please export your data and clear old entries to continue saving.''
                  (Some e) (st1\<lparr>backend := b\<rparr>)
              else
                reportStorageError ''save''
                  ''Failed to save your progress. Please try again or export your data.''
                  (Some e) (st1\<lparr>backend := b\<rparr>))))"


section \<open>Export and import\<close>

definition exportData :: "json_api \<Rightarrow> store \<Rightarrow> string" where
  "exportData J st = json_stringify_pretty J (storageData st)"

record import_result =
  success :: bool
  message :: string

text \<open>Lines 267 to 287. Every exception of the block gives the result of the \<^verbatim>\<open>catch\<close>.\<close>

definition importData :: "json_api \<Rightarrow> string \<Rightarrow> string \<Rightarrow> store \<Rightarrow> import_result \<times> store" where
  "importData J now jsonString st =
     (case json_parse J jsonString of
        None \<Rightarrow> (\<lparr>success = False, message = ''The file is not valid JSON data.''\<rparr>, st)
      | Some d \<Rightarrow>
          (case validateAndRepairData now d st of
             (Throws e, st1) \<Rightarrow>
               (\<lparr>success = False, message = ''The file is not valid JSON data.''\<rparr>, st1)
           | (Returns r, st1) \<Rightarrow>
               if \<not> valid r then
                 (\<lparr>success = False,
                    message = ''The imported data is not valid YearCompass data.''\<rparr>, st1)
               else
                 (let st2 = st1\<lparr>storageData := data r\<rparr>;
                      (saved, st3) = saveToLocalStorage J st2
                  in if \<not> saved then
                       (\<lparr>success = False,
                          message = ''Could not save imported data. Storage may be full.''\<rparr>, st3)
                     else
                       (\<lparr>success = True, message = ''Data imported successfully.''\<rparr>, st3))))"

section \<open>Reading and writing answers\<close>

text \<open>Lines 293 to 298. The result is the read of \<^verbatim>\<open>storageData.years[currentYear]\<close>, with
  \<open>Undefined\<close> standing for the \<^verbatim>\<open>null\<close> the function returns. A primitive \<^verbatim>\<open>storageData\<close> has
  no \<^verbatim>\<open>currentYear\<close>; a missing or null \<^verbatim>\<open>years\<close> throws.\<close>

definition getCurrentYear :: "store \<Rightarrow> lookup outcome" where
  "getCurrentYear st =
     (case storageData st of
        JObj d \<Rightarrow>
          (case field d ''currentYear'' of
             None \<Rightarrow> Returns Undefined
           | Some cy \<Rightarrow>
               if \<not> truthy cy then Returns Undefined
               else (case field d ''years'' of
                       None \<Rightarrow> Throws TypeError
                     | Some JNull \<Rightarrow> Throws TypeError
                     | Some (JObj years) \<Rightarrow>
                         (case to_property_key cy of
                            Throws e \<Rightarrow> Throws e
                          | Returns k \<Rightarrow>
                              if lookup_truthy (js_get years k)
                              then Returns (js_get years k) else Returns Undefined)
                     | Some other \<Rightarrow> Throws OutsideModel))
      | other \<Rightarrow> Returns Undefined)"

subsection \<open>\<^verbatim>\<open>String.prototype.trim\<close>\<close>

text \<open>The white space and line terminators of ECMAScript, in UTF-8: U+0009 to U+000D,
  U+0020, U+00A0, U+1680, U+2000 to U+200A, U+2028, U+2029, U+202F, U+205F, U+3000, U+FEFF.\<close>

definition js_whitespace :: "string list" where
  "js_whitespace =
     [[CHR 0x09], [CHR 0x0A], [CHR 0x0B], [CHR 0x0C], [CHR 0x0D], [CHR 0x20],
      [CHR 0xC2, CHR 0xA0], [CHR 0xE1, CHR 0x9A, CHR 0x80],
      [CHR 0xE2, CHR 0x80, CHR 0x80], [CHR 0xE2, CHR 0x80, CHR 0x81],
      [CHR 0xE2, CHR 0x80, CHR 0x82], [CHR 0xE2, CHR 0x80, CHR 0x83],
      [CHR 0xE2, CHR 0x80, CHR 0x84], [CHR 0xE2, CHR 0x80, CHR 0x85],
      [CHR 0xE2, CHR 0x80, CHR 0x86], [CHR 0xE2, CHR 0x80, CHR 0x87],
      [CHR 0xE2, CHR 0x80, CHR 0x88], [CHR 0xE2, CHR 0x80, CHR 0x89],
      [CHR 0xE2, CHR 0x80, CHR 0x8A], [CHR 0xE2, CHR 0x80, CHR 0xA8],
      [CHR 0xE2, CHR 0x80, CHR 0xA9], [CHR 0xE2, CHR 0x80, CHR 0xAF],
      [CHR 0xE2, CHR 0x81, CHR 0x9F], [CHR 0xE3, CHR 0x80, CHR 0x80],
      [CHR 0xEF, CHR 0xBB, CHR 0xBF]]"

text \<open>The length of the first of the given sequences the string starts with, 0 when it
  starts with none.\<close>

fun prefix_len :: "string list \<Rightarrow> string \<Rightarrow> nat" where
  "prefix_len [] s = 0"
| "prefix_len (w # ws) s =
     (if w \<noteq> [] \<and> take (length w) s = w then length w else prefix_len ws s)"

function strip_start :: "string list \<Rightarrow> string \<Rightarrow> string" where
  "strip_start ws s =
     (if prefix_len ws s = 0 then s else strip_start ws (drop (prefix_len ws s) s))"
  by pat_completeness auto
termination
proof (relation "measure (\<lambda>(ws, s). length s)")
  show "wf (measure (\<lambda>(ws, s). length s))"
    by simp
next
  fix ws :: "string list" and s :: string
  assume pos: "prefix_len ws s \<noteq> 0"
  have "prefix_len vs s \<noteq> 0 \<Longrightarrow> s \<noteq> []" for vs
    by (induction vs) (auto split: if_splits)
  with pos have "s \<noteq> []"
    by blast
  with pos show "((ws, drop (prefix_len ws s) s), (ws, s)) \<in> measure (\<lambda>(ws, s). length s)"
    by simp
qed

definition js_trim :: "string \<Rightarrow> string" where
  "js_trim s =
     rev (strip_start (map rev js_whitespace) (rev (strip_start js_whitespace s)))"

text \<open>The test of line 437: \<^verbatim>\<open>value && typeof value === 'string' && value.trim().length > 0\<close>.\<close>

fun is_filled :: "jsval \<Rightarrow> bool" where
  "is_filled (JStr s) = (truthy (JStr s) \<and> length (js_trim s) > 0)"
| "is_filled v = False"

text \<open>\<^verbatim>\<open>Object.values\<close> of an object: the values of its own properties, in the order of the
  keys.\<close>

definition object_values :: "props \<Rightarrow> jsval list" where
  "object_values ps = List.map_filter (field ps) (object_keys ps)"

text \<open>
  Lines 431 to 439. In \<^verbatim>\<open>year?.sections[sectionId]?.answers\<close> only a null year and a null or
  undefined section stop the chain: a year without \<^verbatim>\<open>sections\<close> throws. A primitive section
  has no \<^verbatim>\<open>answers\<close>. \<^verbatim>\<open>Object.values\<close> of a string are its characters, one of which
  survives \<^verbatim>\<open>trim\<close> when the string does; a number and a boolean have none.
\<close>

definition section_answers :: "lookup \<Rightarrow> jsval option" where
  "section_answers entry =
     (case entry of
        Own (JObj sec) \<Rightarrow> field sec ''answers''
      | other \<Rightarrow> None)"

definition some_filled :: "jsval option \<Rightarrow> bool" where
  "some_filled answers =
     (case answers of
        Some (JObj a) \<Rightarrow> list_ex is_filled (object_values a)
      | Some (JStr s) \<Rightarrow> length (js_trim s) > 0
      | other \<Rightarrow> False)"

definition isSectionStarted :: "string \<Rightarrow> store \<Rightarrow> bool outcome \<times> store" where
  "isSectionStarted sectionId st =
     (case getCurrentYear st of
        Throws e \<Rightarrow> (Throws e, st)
      | Returns Undefined \<Rightarrow> (Returns False, st)
      | Returns Inherited \<Rightarrow> (Throws TypeError, st)
      | Returns (Own (JObj year)) \<Rightarrow>
          (case field year ''sections'' of
             None \<Rightarrow> (Throws TypeError, st)
           | Some JNull \<Rightarrow> (Throws TypeError, st)
           | Some (JObj sections) \<Rightarrow>
               (let answers = section_answers (js_get sections sectionId) in
                if \<not> truthy_opt answers then (Returns False, st)
                else (Returns (some_filled answers), st))
           | Some other \<Rightarrow> (Throws OutsideModel, st))
      | Returns (Own other) \<Rightarrow> (Throws TypeError, st))"

subsection \<open>\<^verbatim>\<open>saveAnswer\<close> and the debounced save\<close>

text \<open>Lines 442 to 451. \<open>clock\<close> is the time of the call in ms: the pending timer, if any, is
  cleared and a new one is due 300 ms later. When it fires it saves and clears the
  variable.\<close>

definition debouncedSave :: "nat \<Rightarrow> store \<Rightarrow> store" where
  "debouncedSave clock st = st\<lparr>saveTimeout := Some (clock + 300)\<rparr>"

definition timer_fires :: "json_api \<Rightarrow> store \<Rightarrow> store" where
  "timer_fires J st = (let (saved, st1) = saveToLocalStorage J st in st1\<lparr>saveTimeout := None\<rparr>)"

text \<open>An assignment \<^verbatim>\<open>obj[k] = v\<close> with a computed key on a plain object. Without an own
  property, the key \<^verbatim>\<open>__proto__\<close> reaches the setter of \<^verbatim>\<open>Object.prototype\<close>: a primitive value
  is ignored, an object or null would replace the prototype, which is not modelled.\<close>

definition assign_prop :: "props \<Rightarrow> string \<Rightarrow> jsval \<Rightarrow> props outcome" where
  "assign_prop ps k v =
     (if map_of ps k = None \<and> k = ''__proto__'' then
        (case v of
           JObj x \<Rightarrow> Throws OutsideModel
         | JNull \<Rightarrow> Throws OutsideModel
         | other \<Rightarrow> Returns ps)
      else Returns (set_prop ps k v))"

text \<open>
  Lines 376 to 380 on the sections object: the section is created when its read is falsy,
  then \<^verbatim>\<open>answers[fieldId]\<close> is assigned. An inherited member or a primitive has no \<^verbatim>\<open>answers\<close>,
  and an assignment to a property of a primitive throws in module code.
\<close>

definition write_answer :: "props \<Rightarrow> string \<Rightarrow> string \<Rightarrow> jsval \<Rightarrow> props outcome" where
  "write_answer sections sectionId fieldId v =
     (let sections1 = (if \<not> lookup_truthy (js_get sections sectionId)
                       then set_prop sections sectionId default_section else sections)
      in case js_get sections1 sectionId of
           Own (JObj sec) \<Rightarrow>
             (case field sec ''answers'' of
                Some (JObj answers) \<Rightarrow>
                  (case assign_prop answers fieldId v of
                     Throws e \<Rightarrow> Throws e
                   | Returns answers' \<Rightarrow>
                       Returns (set_prop sections1 sectionId
                                  (JObj (set_prop sec ''answers'' (JObj answers')))))
              | other \<Rightarrow> Throws TypeError)
         | other \<Rightarrow> Throws TypeError)"

text \<open>Lines 372 to 385. \<open>now\<close> is \<^verbatim>\<open>new Date().toISOString()\<close>, \<open>clock\<close> the time of the call.
  Every exception is thrown before the first assignment, so the store is then
  unchanged.\<close>

definition saveAnswer ::
  "string \<Rightarrow> nat \<Rightarrow> string \<Rightarrow> string \<Rightarrow> string \<Rightarrow> jsval \<Rightarrow> store \<Rightarrow> unit outcome \<times> store" where
  "saveAnswer now clock yearId sectionId fieldId v st =
     (case storageData st of
        JObj d \<Rightarrow>
          (case field d ''years'' of
             Some (JObj years) \<Rightarrow>
               (case js_get years yearId of
                  Undefined \<Rightarrow> (Returns (), st)
                | Inherited \<Rightarrow> (Throws TypeError, st)
                | Own (JObj year) \<Rightarrow>
                    (case field year ''sections'' of
                       None \<Rightarrow> (Throws TypeError, st)
                     | Some JNull \<Rightarrow> (Throws TypeError, st)
                     | Some (JObj sections) \<Rightarrow>
                         (case write_answer sections sectionId fieldId v of
                            Throws e \<Rightarrow> (Throws e, st)
                          | Returns sections' \<Rightarrow>
                              (let year1 = set_prop year ''sections'' (JObj sections');
                                   year2 = set_prop year1 ''lastModified'' (JStr now);
                                   d' = set_prop d ''years''
                                          (JObj (set_prop years yearId (JObj year2)))
                               in (Returns (),
                                   debouncedSave clock (st\<lparr>storageData := JObj d'\<rparr>))))
                     | Some other \<Rightarrow> (Throws OutsideModel, st))
                | Own other \<Rightarrow>
                    if \<not> truthy other then (Returns (), st) else (Throws TypeError, st))
           | None \<Rightarrow> (Throws TypeError, st)
           | Some JNull \<Rightarrow> (Throws TypeError, st)
           | Some other \<Rightarrow> (Throws OutsideModel, st))
      | JNull \<Rightarrow> (Throws TypeError, st)
      | other \<Rightarrow> (Throws TypeError, st))"

section \<open>Stated properties and sample data\<close>

text \<open>What the repair of \<^verbatim>\<open>currentYear\<close> is meant to establish: it is not set, or it is a key
  of \<^verbatim>\<open>years\<close>.\<close>

definition currentYear_resolves :: "jsval \<Rightarrow> bool" where
  "currentYear_resolves d =
     (case field (props_of (Some d)) ''currentYear'' of
        None \<Rightarrow> True
      | Some (JStr k) \<Rightarrow>
          k = [] \<or> k \<in> set (object_keys (props_of (field (props_of (Some d)) ''years'')))
      | Some other \<Rightarrow> \<not> truthy other)"

text \<open>The record \<^verbatim>\<open>{"currentYear": "2024-2025", "years": {"2024-2025": 5}}\<close>: the current
  year names an entry that is not an object.\<close>

definition dropped_current :: jsval where
  "dropped_current =
     JObj [(''currentYear'', JStr ''2024-2025''), (''years'', JObj [(''2024-2025'', JNum 5)])]"

definition dropped_current_repaired :: jsval where
  "dropped_current_repaired =
     JObj [(''currentYear'', JStr ''2024-2025''), (''years'', JObj []),
           (''version'', JNum 1), (''settings'', default_settings)]"

text \<open>
  The coercions of the validation that set \<^verbatim>\<open>repaired\<close>, stated on the input: a \<^verbatim>\<open>version\<close>
  that is not a number, \<^verbatim>\<open>settings\<close> or \<^verbatim>\<open>years\<close> that is not an object, a truthy
  \<^verbatim>\<open>currentYear\<close> whose read in \<^verbatim>\<open>years\<close> is falsy, a year entry that is not an object, a
  year whose \<^verbatim>\<open>sections\<close> is not an object, a section that is not an object, a section whose
  \<^verbatim>\<open>answers\<close> is not an object.
\<close>

definition section_defect :: "jsval option \<Rightarrow> bool" where
  "section_defect s = (not_object s \<or> not_object (field (props_of s) ''answers''))"

definition year_defect :: "jsval option \<Rightarrow> bool" where
  "year_defect y =
     (not_object y \<or> not_object (field (props_of y) ''sections'')
      \<or> (let sections = props_of (field (props_of y) ''sections'')
          in list_ex (\<lambda>k. section_defect (field sections k)) (object_keys sections)))"




text \<open>Sample data: a year without \<^verbatim>\<open>id\<close>, \<^verbatim>\<open>displayName\<close>, \<^verbatim>\<open>createdAt\<close> and
  \<^verbatim>\<open>lastModified\<close> in an otherwise well-formed record; a \<^verbatim>\<open>currentYear\<close> that has no
  property key; a time stamp; a backend that stores every write; a store before
  \<^verbatim>\<open>initStorage\<close>, with a callback registered.\<close>

definition unlabelled_year :: jsval where
  "unlabelled_year =
     JObj [(''version'', JNum 1), (''settings'', JObj []),
           (''years'', JObj [(''2024-2025'', JObj [(''sections'', JObj [])])])]"


definition sample_now :: string where
  "sample_now = ''2026-01-01T00:00:00.000Z''"

definition working_backend :: backend where
  "working_backend =
     \<lparr>items = [], set_fault = (\<lambda>content k v. None), access_fault = None, writes = []\<rparr>"

definition fresh_store :: store where
  "fresh_store =
     \<lparr>storageData = JNull, onStorageError = Some 0, notified = [], console = [],
      saveTimeout = None, backend = working_backend\<rparr>"

text \<open>A stand-in for the platform's JSON on sample documents: a compact serialisation, and
  a parser that inverts it on a given list of documents and rejects every other text.\<close>

fun sample_quote :: "string \<Rightarrow> string" where
  "sample_quote [] = []"
| "sample_quote (c # cs) =
     (if c = CHR 0x22 \<or> c = CHR 0x5C then CHR 0x5C # c # sample_quote cs
      else c # sample_quote cs)"

fun sample_stringify :: "jsval \<Rightarrow> string" where
  "sample_stringify JNull = ''null''"
| "sample_stringify (JBool b) = (if b then ''true'' else ''false'')"
| "sample_stringify (JNum n) = show_int n"
| "sample_stringify (JStr s) = [CHR 0x22] @ sample_quote s @ [CHR 0x22]"
| "sample_stringify (JObj ps) =
     ''{'' @ concat (map (\<lambda>(k, v). [CHR 0x22] @ sample_quote k @ [CHR 0x22] @ '':''
                          @ sample_stringify v @ '','') ps) @ ''}''"

definition sample_json :: "jsval list \<Rightarrow> json_api" where
  "sample_json docs =
     \<lparr>json_parse = (\<lambda>s. find (\<lambda>d. sample_stringify d = s) docs),
      json_stringify = sample_stringify,
      json_stringify_pretty = sample_stringify\<rparr>"


text \<open>Backends: one whose every access throws, one that is full, one that refuses the
  record but takes the probe. A document with one year; the documents the sample parser
  knows; a store whose backend is disabled.\<close>

definition disabled_backend :: backend where
  "disabled_backend =
     \<lparr>items = [], set_fault = (\<lambda>content k v. None),
      access_fault = Some (DOMException ''SecurityError'' (Some 18)), writes = []\<rparr>"

definition full_backend :: backend where
  "full_backend =
     \<lparr>items = [],
      set_fault = (\<lambda>content k v. Some (DOMException ''QuotaExceededError'' (Some 22))),
      access_fault = None, writes = []\<rparr>"

definition record_too_large :: backend where
  "record_too_large =
     \<lparr>items = [],
      set_fault = (\<lambda>content k v. if k = STORAGE_KEY
                     then Some (DOMException ''QuotaExceededError'' (Some 22)) else None),
      access_fault = None, writes = []\<rparr>"

definition one_year :: jsval where
  "one_year =
     JObj [(''version'', JNum 1), (''currentYear'', JStr ''2024-2025''),
           (''settings'', default_settings),
           (''years'', JObj [(''2024-2025'',
              JObj [(''id'', JStr ''2024-2025''),
                    (''displayName'', JStr (display_name ''2024-2025'')),
                    (''createdAt'', JStr ''2025-12-30T10:00:00.000Z''),
                    (''lastModified'', JStr ''2025-12-31T10:00:00.000Z''),
                    (''currentSection'', JStr ''intro''),
                    (''sections'', JObj [])])])]"

definition sample_docs :: "jsval list" where
  "sample_docs = [getDefaultData, one_year, JStr ''x'']"

definition offline_store :: store where
  "offline_store =
     \<lparr>storageData = getDefaultData, onStorageError = Some 0, notified = [], console = [],
      saveTimeout = None, backend = disabled_backend\<rparr>"

text \<open>Stores: one whose backend is full, one whose backend refuses the record only, one
  whose record is not JSON, one with a document loaded; and two messages of the module.\<close>

definition full_store :: store where
  "full_store = fresh_store\<lparr>storageData := getDefaultData, backend := full_backend\<rparr>"

definition tight_store :: store where
  "tight_store = fresh_store\<lparr>storageData := getDefaultData, backend := record_too_large\<rparr>"


definition loaded_store :: store where
  "loaded_store = fresh_store\<lparr>storageData := one_year\<rparr>"


definition unlabelled_store :: store where
  "unlabelled_store = fresh_store\<lparr>storageData := unlabelled_year\<rparr>"

definition unlabelled_year_backfilled :: jsval where
  "unlabelled_year_backfilled =
     JObj [(''version'', JNum 1), (''settings'', JObj []),
           (''years'', JObj [(''2024-2025'',
              JObj [(''sections'', JObj []), (''id'', JStr ''2024-2025''),
                    (''displayName'', JStr (display_name ''2024-2025'')),
                    (''createdAt'', JStr sample_now),
                    (''lastModified'', JStr sample_now)])])]"

definition quota_message :: string where
  "quota_message =
     ''Storage is full. Please export your data and clear old entries to continue saving.''"


text \<open>
  The invariants of the data model. \<open>years_wellformed\<close>: \<^verbatim>\<open>years\<close> is an object, every entry
  of it is an object whose \<^verbatim>\<open>sections\<close> is an object, and every section is an object whose
  \<^verbatim>\<open>answers\<close> is an object. \<open>doc_invariants\<close> adds that \<^verbatim>\<open>currentYear\<close> is unset or a key of
  \<^verbatim>\<open>years\<close>, that \<^verbatim>\<open>version\<close> is a number and that \<^verbatim>\<open>settings\<close> is an object.
\<close>

definition years_wellformed :: "jsval \<Rightarrow> bool" where
  "years_wellformed D =
     (case D of
        JObj d \<Rightarrow>
          (case field d ''years'' of
             Some (JObj years) \<Rightarrow>
               list_all (\<lambda>k. \<not> year_defect (field years k)) (object_keys years)
           | other \<Rightarrow> False)
      | other \<Rightarrow> False)"

definition doc_invariants :: "jsval \<Rightarrow> bool" where
  "doc_invariants D =
     (years_wellformed D \<and> currentYear_resolves D
      \<and> typeof_opt (field (props_of (Some D)) ''version'') = ''number''
      \<and> \<not> not_object (field (props_of (Some D)) ''settings''))"

text \<open>The answers of the current year's section: empty when no current year is set or the
  year has no such section.\<close>

definition current_answers :: "store \<Rightarrow> string \<Rightarrow> props" where
  "current_answers st sectionId =
     (let d = props_of (Some (storageData st));
          years = props_of (field d ''years'');
          year = (case field d ''currentYear'' of
                    Some (JStr y) \<Rightarrow> if y = [] then [] else props_of (field years y)
                  | other \<Rightarrow> []);
          sections = props_of (field year ''sections'');
          section = props_of (field sections sectionId)
      in props_of (field section ''answers''))"

text \<open>A document whose current year has one section \<^verbatim>\<open>x\<close> with the given answers.\<close>

definition answered :: "props \<Rightarrow> jsval" where
  "answered answers =
     JObj [(''version'', JNum 1), (''currentYear'', JStr ''2024-2025''),
           (''settings'', default_settings),
           (''years'', JObj [(''2024-2025'',
              JObj [(''id'', JStr ''2024-2025''),
                    (''sections'', JObj [(''x'',
                       JObj [(''completed'', JBool False), (''answers'', JObj answers)])])])])]"

text \<open>
  A valid document: the invariants hold, and every year entry carries its key as \<^verbatim>\<open>id\<close>, a
  \<^verbatim>\<open>displayName\<close> that is a non-empty string or the label derived from the key, and non-empty
  strings as \<^verbatim>\<open>createdAt\<close> and \<^verbatim>\<open>lastModified\<close>. A backend whose writes succeed: no access
  throws and \<^verbatim>\<open>setItem\<close> stores every value.
\<close>

definition is_timestamp :: "jsval option \<Rightarrow> bool" where
  "is_timestamp x = (case x of Some (JStr s) \<Rightarrow> s \<noteq> [] | other \<Rightarrow> False)"

definition year_labelled :: "string \<Rightarrow> jsval option \<Rightarrow> bool" where
  "year_labelled k y =
     (let yp = props_of y in
      field yp ''id'' = Some (JStr k)
      \<and> (case field yp ''displayName'' of
            Some (JStr n) \<Rightarrow> n \<noteq> [] \<or> n = display_name k
          | other \<Rightarrow> False)
      \<and> is_timestamp (field yp ''createdAt'')
      \<and> is_timestamp (field yp ''lastModified''))"

definition valid_document :: "jsval \<Rightarrow> bool" where
  "valid_document D =
     (let years = props_of (field (props_of (Some D)) ''years'')
      in doc_invariants D
         \<and> list_all (\<lambda>k. year_labelled k (field years k)) (object_keys years))"

definition writes_succeed :: "backend \<Rightarrow> bool" where
  "writes_succeed b =
     (access_fault b = None \<and> (\<forall>content k v. set_fault b content k v = None))"

section \<open>Time\<close>

text \<open>
  The event loop, as far as the module meets it. A call is \<^verbatim>\<open>saveAnswer(yearId, sectionId,
  fieldId, value)\<close>. \<open>elapse\<close> lets \<open>dt\<close> ms pass: the pending timer fires when it is due by
  then. \<open>run_calls\<close> runs calls in turn, each after its gap in ms; \<open>stamp\<close> gives the time
  stamp of a time. An exception of a call goes to the caller and the loop goes on.
\<close>

type_synonym call = "string \<times> string \<times> string \<times> jsval"

definition elapse :: "json_api \<Rightarrow> nat \<Rightarrow> nat \<times> store \<Rightarrow> nat \<times> store" where
  "elapse J dt = (\<lambda>(t, st).
     (t + dt,
      case saveTimeout st of
        None \<Rightarrow> st
      | Some due \<Rightarrow> if due \<le> t + dt then timer_fires J st else st))"

fun run_calls ::
  "json_api \<Rightarrow> (nat \<Rightarrow> string) \<Rightarrow> (nat \<times> call) list \<Rightarrow> nat \<times> store \<Rightarrow> nat \<times> store" where
  "run_calls J stamp [] w = w"
| "run_calls J stamp ((gap, yearId, sectionId, fieldId, v) # rest) w =
     (let (t, st) = elapse J gap w;
          (r, st') = saveAnswer (stamp t) t yearId sectionId fieldId v st
      in run_calls J stamp rest (t, st'))"

text \<open>The keys of \<^verbatim>\<open>years\<close>; the answer stored for a field; and the calls that reach the
  assignment of line 380: on a year of the document, for a section that is not the name of
  an inherited member and a field other than \<^verbatim>\<open>__proto__\<close>.\<close>

definition year_ids :: "jsval \<Rightarrow> string set" where
  "year_ids D = set (object_keys (props_of (field (props_of (Some D)) ''years'')))"

definition answer_at :: "jsval \<Rightarrow> string \<Rightarrow> string \<Rightarrow> string \<Rightarrow> jsval option" where
  "answer_at D yearId sectionId fieldId =
     (let years = props_of (field (props_of (Some D)) ''years'');
          sections = props_of (field (props_of (field years yearId)) ''sections'');
          answers = props_of (field (props_of (field sections sectionId)) ''answers'')
      in field answers fieldId)"

definition takes_effect :: "jsval \<Rightarrow> nat \<times> call \<Rightarrow> bool" where
  "takes_effect D = (\<lambda>(gap, yearId, sectionId, fieldId, v).
     yearId \<in> year_ids D \<and> sectionId \<notin> set object_prototype_keys \<and> fieldId \<noteq> ''__proto__'')"

text \<open>Three edits of one field within 250 ms, and an edit of a year that does not exist.\<close>

definition three_edits :: "(nat \<times> call) list" where
  "three_edits =
     [(0, ''2024-2025'', ''past'', ''q1'', JStr ''a''),
      (100, ''2024-2025'', ''past'', ''q1'', JStr ''ab''),
      (150, ''2024-2025'', ''past'', ''q1'', JStr ''abc'')]"

definition stray_edit :: "(nat \<times> call) list" where
  "stray_edit = [(0, ''2030-2031'', ''past'', ''q1'', JStr ''a'')]"

section \<open>Evaluation of the validation\<close>

lemmas vr_eval =
  validateAndRepairData_def repair_toplevel_def repair_currentYear_def repair_year_def
  backfill_year_def repair_section_def field_def set_prop_def delete_prop_def
  not_object_def js_get_def object_keys_def own_keys_def is_array_index_def is_digit_def
  digits_value_def DATA_VERSION_def object_prototype_keys_def AList.delete_eq

text \<open>
  C1. After \<^verbatim>\<open>validateAndRepairData\<close>, \<^verbatim>\<open>currentYear\<close> should be null or a key of \<^verbatim>\<open>years\<close>.
  The check of \<^verbatim>\<open>currentYear\<close> (line 99) runs before the loop that drops the entries that are
  not objects (line 110): on \<^verbatim>\<open>{"currentYear": "2024-2025", "years": {"2024-2025": 5}}\<close> the
  entry is truthy, \<^verbatim>\<open>currentYear\<close> is kept, the entry is then deleted, and the returned
  document names a year that \<^verbatim>\<open>years\<close> does not have.
\<close>

theorem validateAndRepairData_dangling_currentYear:
  "fst (validateAndRepairData now dropped_current st)
     = Returns \<lparr>valid = True, repaired = True, data = dropped_current_repaired\<rparr>
   \<and> \<not> currentYear_resolves dropped_current_repaired"
  by (simp add: vr_eval dropped_current_def dropped_current_repaired_def
        currentYear_resolves_def)

theorem validateAndRepairData_dangling_currentYear_witness:
  "fst (validateAndRepairData sample_now dropped_current fresh_store)
     = Returns \<lparr>valid = True, repaired = True, data = dropped_current_repaired\<rparr>
   \<and> \<not> currentYear_resolves dropped_current_repaired"
  by (rule validateAndRepairData_dangling_currentYear)

text \<open>
  C2. A second run on the data returned by the first should report no repair. On the
  document above the second run finds \<^verbatim>\<open>currentYear\<close> dangling, sets it to null and returns
  \<^verbatim>\<open>repaired = true\<close>.
\<close>

theorem validateAndRepairData_second_pass_repairs:
  "fst (validateAndRepairData now dropped_current st)
     = Returns \<lparr>valid = True, repaired = True, data = dropped_current_repaired\<rparr>
   \<and> fst (validateAndRepairData now' dropped_current_repaired st')
     = Returns \<lparr>valid = True, repaired = True,
          data = JObj [(''currentYear'', JNull), (''years'', JObj []),
                       (''version'', JNum 1), (''settings'', default_settings)]\<rparr>"
  by (simp add: vr_eval dropped_current_def dropped_current_repaired_def)

theorem validateAndRepairData_second_pass_repairs_witness:
  "fst (validateAndRepairData sample_now dropped_current fresh_store)
     = Returns \<lparr>valid = True, repaired = True, data = dropped_current_repaired\<rparr>
   \<and> fst (validateAndRepairData sample_now dropped_current_repaired fresh_store)
     = Returns \<lparr>valid = True, repaired = True,
          data = JObj [(''currentYear'', JNull), (''years'', JObj []),
                       (''version'', JNum 1), (''settings'', default_settings)]\<rparr>"
  by (rule validateAndRepairData_second_pass_repairs)

section \<open>The flags of the validation\<close>


lemma field_set_prop: "field (set_prop ps k v) k' = (if k' = k then Some v else field ps k')"
  by (simp add: field_def set_prop_def update_conv')



















section \<open>What the operations leave unchanged\<close>

lemma storageData_reportStorageError [simp]:
  "storageData (reportStorageError ty msg e st) = storageData st"
  by (simp add: reportStorageError_def Let_def split: option.splits)

lemma backend_reportStorageError [simp]:
  "backend (reportStorageError ty msg e st) = backend st"
  by (simp add: reportStorageError_def Let_def split: option.splits)

lemma saveTimeout_reportStorageError [simp]:
  "saveTimeout (reportStorageError ty msg e st) = saveTimeout st"
  by (simp add: reportStorageError_def Let_def split: option.splits)

lemma onStorageError_reportStorageError [simp]:
  "onStorageError (reportStorageError ty msg e st) = onStorageError st"
  by (simp add: reportStorageError_def Let_def split: option.splits)

lemma notified_reportStorageError:
  "notified (reportStorageError ty msg e st) =
     (case onStorageError st of
        None \<Rightarrow> notified st
      | Some cb \<Rightarrow> notified st @ [(cb, StorageError ty msg e)])"
  by (simp add: reportStorageError_def Let_def split: option.splits)

lemma validateAndRepairData_frame:
  "storageData (snd (validateAndRepairData now d st)) = storageData st
   \<and> backend (snd (validateAndRepairData now d st)) = backend st
   \<and> saveTimeout (snd (validateAndRepairData now d st)) = saveTimeout st
   \<and> onStorageError (snd (validateAndRepairData now d st)) = onStorageError st"
  by (simp add: validateAndRepairData_def Let_def split_def split: outcome.splits)

lemma isLocalStorageAvailable_frame:
  "storageData (snd (isLocalStorageAvailable st)) = storageData st
   \<and> notified (snd (isLocalStorageAvailable st)) = notified st
   \<and> onStorageError (snd (isLocalStorageAvailable st)) = onStorageError st
   \<and> saveTimeout (snd (isLocalStorageAvailable st)) = saveTimeout st
   \<and> console (snd (isLocalStorageAvailable st)) = console st
   \<and> backend (snd (isLocalStorageAvailable st)) = snd (probe (backend st))
   \<and> fst (isLocalStorageAvailable st) = fst (probe (backend st))"
  by (simp add: isLocalStorageAvailable_def split_def Let_def)

lemma storageData_saveToLocalStorage [simp]:
  "storageData (snd (saveToLocalStorage J st)) = storageData st"
  by (simp add: saveToLocalStorage_def split_def Let_def isLocalStorageAvailable_frame
      split: prod.splits outcome.splits)

lemma saveToLocalStorage_unavailable:
  "\<not> fst (probe (backend st)) \<Longrightarrow>
   saveToLocalStorage J st = (False, st\<lparr>backend := snd (probe (backend st))\<rparr>)"
  by (simp add: saveToLocalStorage_def isLocalStorageAvailable_def split_def)

lemmas store_eval =
  saveToLocalStorage_def isLocalStorageAvailable_def probe_def setItem_def getItem_def
  removeItem_def reportStorageError_def is_quota_error_def testKey_def STORAGE_KEY_def

lemma sample_parse_one_year:
  "json_parse (sample_json sample_docs) (sample_stringify one_year) = Some one_year"
  by (simp add: sample_json_def sample_docs_def one_year_def getDefaultData_def
        default_settings_def DATA_VERSION_def display_name_def show_int_def)

section \<open>Import\<close>

text \<open>
  C4, as the code has it. When \<^verbatim>\<open>importData\<close> returns \<^verbatim>\<open>success = false\<close> because the text does
  not parse, because the validation throws or because the parsed value is not an object,
  \<^verbatim>\<open>storageData\<close> is what it was before the call. When it returns \<^verbatim>\<open>success = false\<close> because the
  save failed, \<^verbatim>\<open>storageData\<close> has been replaced by the validated import (line 276 precedes
  the save of line 277).
\<close>

theorem importData_failure:
  assumes "importData J now jsonString st = (res, st')" and "\<not> success res"
  shows "(message res \<noteq> ''Could not save imported data. Storage may be full.''
            \<and> storageData st' = storageData st)
         \<or> (message res = ''Could not save imported data. Storage may be full.''
            \<and> (\<exists>d r. json_parse J jsonString = Some d
                  \<and> fst (validateAndRepairData now d st) = Returns r \<and> valid r
                  \<and> storageData st' = data r))"
proof (cases "json_parse J jsonString")
  case None
  with assms show ?thesis
    by (auto simp: importData_def)
next
  case (Some d)
  obtain out st1 where v: "validateAndRepairData now d st = (out, st1)"
    by (cases "validateAndRepairData now d st")
  have st1: "storageData st1 = storageData st"
    using validateAndRepairData_frame [of now d st] v by simp
  show ?thesis
  proof (cases out)
    case (Throws e)
    with assms Some v st1 show ?thesis
      by (auto simp: importData_def)
  next
    case (Returns r)
    show ?thesis
    proof (cases "valid r")
      case False
      with assms Some v st1 Returns show ?thesis
        by (auto simp: importData_def)
    next
      case True
      obtain saved st3 where sv: "saveToLocalStorage J (st1\<lparr>storageData := data r\<rparr>) = (saved, st3)"
        by (cases "saveToLocalStorage J (st1\<lparr>storageData := data r\<rparr>)")
      have "storageData st3 = data r"
        using storageData_saveToLocalStorage [of J "st1\<lparr>storageData := data r\<rparr>"] sv by simp
      with assms Some v Returns True sv show ?thesis
        by (auto simp: importData_def Let_def split: if_splits)
    qed
  qed
qed

theorem importData_failure_witness:
  "message (fst (importData (sample_json sample_docs) sample_now ''{not json'' offline_store))
      \<noteq> ''Could not save imported data. Storage may be full.''
   \<and> storageData (snd (importData (sample_json sample_docs) sample_now ''{not json''
                          offline_store)) = storageData offline_store"
proof -
  have "\<not> success (fst (importData (sample_json sample_docs) sample_now ''{not json''
                         offline_store))"
    by (simp add: importData_def sample_json_def sample_docs_def one_year_def
          getDefaultData_def default_settings_def DATA_VERSION_def show_int_def)
  then show ?thesis
    using importData_failure [of "sample_json sample_docs" sample_now "''{not json''"
        offline_store
        "fst (importData (sample_json sample_docs) sample_now ''{not json'' offline_store)"
        "snd (importData (sample_json sample_docs) sample_now ''{not json'' offline_store)"]
    by (simp add: importData_def sample_json_def sample_docs_def one_year_def
          getDefaultData_def default_settings_def DATA_VERSION_def show_int_def)
qed

text \<open>
  C4, as stated, fails on a persist failure: with a disabled backend, the import of a
  valid document returns \<^verbatim>\<open>success = false\<close> and leaves the imported document in
  \<^verbatim>\<open>storageData\<close>, where the default document was.
\<close>

theorem importData_persist_failure_replaces:
  "fst (importData (sample_json sample_docs) sample_now (sample_stringify one_year) offline_store)
     = \<lparr>success = False, message = ''Could not save imported data. Storage may be full.''\<rparr>
   \<and> storageData (snd (importData (sample_json sample_docs) sample_now
                          (sample_stringify one_year) offline_store)) = one_year
   \<and> storageData offline_store = getDefaultData
   \<and> one_year \<noteq> getDefaultData"
proof -
  have v: "validateAndRepairData sample_now one_year offline_store
             = (Returns \<lparr>valid = True, repaired = False, data = one_year\<rparr>, offline_store)"
    by (simp add: vr_eval one_year_def default_settings_def display_name_def Let_def)
  have s: "saveToLocalStorage (sample_json sample_docs) (offline_store\<lparr>storageData := one_year\<rparr>)
             = (False, offline_store\<lparr>storageData := one_year\<rparr>)"
    by (simp add: store_eval offline_store_def disabled_backend_def)
  have d: "one_year \<noteq> getDefaultData"
    by (simp add: one_year_def getDefaultData_def)
  show ?thesis
    using d by (simp add: importData_def sample_parse_one_year v s) (simp add: offline_store_def)
qed


section \<open>Saving and loading\<close>

lemma probe_success:
  assumes "fst (probe b)"
  shows "access_fault b = None" and "set_fault b (items b) testKey ''test'' = None"
    and "snd (probe b) = b\<lparr>items := AList.delete testKey (AList.update testKey ''test'' (items b)),
                           writes := writes b @ [(testKey, ''test'')]\<rparr>"
  using assms
  by (auto simp: probe_def setItem_def getItem_def removeItem_def
      split: option.splits prod.splits outcome.splits)



text \<open>
  C7, as the code has it. \<^verbatim>\<open>saveToLocalStorage\<close> first probes the backend (line 204). When the
  probe passes and the write of the record throws a quota error, it returns false, the
  callback receives an error of type \<^verbatim>\<open>quota\<close>, and \<^verbatim>\<open>storageData\<close> is unchanged. When the probe
  itself fails, as it does when every write throws, it returns false without a call to the
  callback.
\<close>

theorem saveToLocalStorage_quota:
  assumes "onStorageError st = Some cb"
  shows "(fst (probe (backend st))
            \<and> set_fault (backend st) (items (snd (probe (backend st)))) STORAGE_KEY
                 (json_stringify J (storageData st)) = Some e
            \<and> is_quota_error e \<longrightarrow>
          fst (saveToLocalStorage J st) = False
          \<and> storageData (snd (saveToLocalStorage J st)) = storageData st
          \<and> notified (snd (saveToLocalStorage J st))
              = notified st @ [(cb, StorageError ''quota'' quota_message (Some e))])
         \<and> (\<not> fst (probe (backend st)) \<longrightarrow>
          fst (saveToLocalStorage J st) = False
          \<and> storageData (snd (saveToLocalStorage J st)) = storageData st
          \<and> notified (snd (saveToLocalStorage J st)) = notified st)"
proof (intro conjI impI)
  assume a: "fst (probe (backend st))
            \<and> set_fault (backend st) (items (snd (probe (backend st)))) STORAGE_KEY
                 (json_stringify J (storageData st)) = Some e
            \<and> is_quota_error e"
  let ?b1 = "snd (probe (backend st))"
  have b1: "access_fault ?b1 = None" "set_fault ?b1 = set_fault (backend st)"
    using probe_success [of "backend st"] a by simp_all
  have "saveToLocalStorage J st
          = (False, reportStorageError ''quota'' quota_message (Some e) (st\<lparr>backend := ?b1\<rparr>))"
    using a b1
    by (simp add: saveToLocalStorage_def isLocalStorageAvailable_def split_def Let_def
          setItem_def quota_message_def)
  then show "fst (saveToLocalStorage J st) = False"
    and "storageData (snd (saveToLocalStorage J st)) = storageData st"
    and "notified (snd (saveToLocalStorage J st))
              = notified st @ [(cb, StorageError ''quota'' quota_message (Some e))]"
    using assms by (simp_all add: notified_reportStorageError)
next
  assume "\<not> fst (probe (backend st))"
  then have "saveToLocalStorage J st = (False, st\<lparr>backend := snd (probe (backend st))\<rparr>)"
    by (rule saveToLocalStorage_unavailable)
  then show "fst (saveToLocalStorage J st) = False"
    and "storageData (snd (saveToLocalStorage J st)) = storageData st"
    and "notified (snd (saveToLocalStorage J st)) = notified st"
    by simp_all
qed

theorem saveToLocalStorage_quota_witness:
  "fst (saveToLocalStorage (sample_json sample_docs) tight_store) = False
   \<and> storageData (snd (saveToLocalStorage (sample_json sample_docs) tight_store)) = getDefaultData
   \<and> notified (snd (saveToLocalStorage (sample_json sample_docs) tight_store))
       = [(0, StorageError ''quota'' quota_message
                (Some (DOMException ''QuotaExceededError'' (Some 22))))]
   \<and> fst (saveToLocalStorage (sample_json sample_docs) full_store) = False
   \<and> notified (snd (saveToLocalStorage (sample_json sample_docs) full_store)) = []"
proof -
  have p1: "fst (probe (backend tight_store))"
    by (simp add: tight_store_def fresh_store_def record_too_large_def probe_def setItem_def
          getItem_def removeItem_def testKey_def STORAGE_KEY_def)
  have p2: "\<not> fst (probe (backend full_store))"
    by (simp add: full_store_def fresh_store_def full_backend_def probe_def setItem_def)
  have q: "is_quota_error (DOMException ''QuotaExceededError'' (Some 22))"
    by (simp add: is_quota_error_def)
  have c1: "onStorageError tight_store = Some 0" "storageData tight_store = getDefaultData"
      "notified tight_store = []"
      "set_fault (backend tight_store) c STORAGE_KEY v
         = Some (DOMException ''QuotaExceededError'' (Some 22))" for c v
    by (simp_all add: tight_store_def fresh_store_def record_too_large_def)
  have c2: "onStorageError full_store = Some 0" "notified full_store = []"
    by (simp_all add: full_store_def fresh_store_def)
  show ?thesis
    using saveToLocalStorage_quota [where st = tight_store and cb = 0
            and e = "DOMException ''QuotaExceededError'' (Some 22)"
            and J = "sample_json sample_docs"]
      saveToLocalStorage_quota [where st = full_store and cb = 0
            and e = "DOMException ''QuotaExceededError'' (Some 22)"
            and J = "sample_json sample_docs"]
      p1 p2 q c1 c2
    by simp
qed

text \<open>
  C7, as stated, fails: on a backend whose \<^verbatim>\<open>setItem\<close> throws \<^verbatim>\<open>QuotaExceededError\<close> for every
  write, the probe fails and \<^verbatim>\<open>saveToLocalStorage\<close> returns false with no call to the registered
  callback.
\<close>

theorem saveToLocalStorage_full_backend_silent:
  "(\<forall>content k v. set_fault (backend full_store) content k v
        = Some (DOMException ''QuotaExceededError'' (Some 22)))
   \<and> onStorageError full_store = Some 0
   \<and> saveToLocalStorage (sample_json sample_docs) full_store = (False, full_store)
   \<and> notified full_store = []"
  by (simp add: full_store_def fresh_store_def full_backend_def store_eval)

lemma probe_succeeds:
  assumes "writes_succeed b"
  shows "probe b = (True, b\<lparr>items := AList.delete testKey (AList.update testKey ''test'' (items b)),
                              writes := writes b @ [(testKey, ''test'')]\<rparr>)"
  using assms
  by (simp add: writes_succeed_def probe_def setItem_def getItem_def removeItem_def
        update_conv')

lemma saveToLocalStorage_succeeds:
  assumes "writes_succeed (backend st)"
  shows "fst (saveToLocalStorage J st)
         \<and> writes (backend (snd (saveToLocalStorage J st)))
             = writes (backend st)
                 @ [(testKey, ''test''), (STORAGE_KEY, json_stringify J (storageData st))]
         \<and> notified (snd (saveToLocalStorage J st)) = notified st
         \<and> saveTimeout (snd (saveToLocalStorage J st)) = saveTimeout st"
  using assms probe_succeeds [OF assms]
  by (simp add: saveToLocalStorage_def isLocalStorageAvailable_def setItem_def
        writes_succeed_def)




section \<open>Answers\<close>

text \<open>
  For a \<^verbatim>\<open>yearId\<close> that is not a key of \<^verbatim>\<open>years\<close>, \<^verbatim>\<open>saveAnswer\<close> leaves the whole store as
  it is: no entry, no answer, no \<^verbatim>\<open>lastModified\<close>, no timer, no call to the callback. The
  guard of line 374, \<^verbatim>\<open>if (!year) return;\<close>, tests \<^verbatim>\<open>storageData.years[yearId]\<close>, a read
  through the prototype chain: it returns for every \<^verbatim>\<open>yearId\<close> but the names of the members
  of \<^verbatim>\<open>Object.prototype\<close>.
\<close>

lemma saveAnswer_unknown_year:
  assumes "storageData st = JObj d" and "field d ''years'' = Some (JObj years)"
    and "map_of years yearId = None"
  shows "saveAnswer now clock yearId sectionId fieldId v st
           = (if yearId \<in> set object_prototype_keys then Throws TypeError else Returns (), st)"
  using assms by (simp add: saveAnswer_def js_get_def)

text \<open>
  C10. \<^verbatim>\<open>saveAnswer\<close> on a \<^verbatim>\<open>yearId\<close> that \<^verbatim>\<open>years\<close> does not have should do nothing and
  return. The guard of line 374 is there for that, but \<^verbatim>\<open>"constructor"\<close> passes it: it is not
  a key of \<^verbatim>\<open>years\<close>, yet \<^verbatim>\<open>storageData.years["constructor"]\<close> is the inherited function and
  truthy, \<^verbatim>\<open>year.sections\<close> is undefined, and line 376 throws \<^verbatim>\<open>TypeError\<close> to the caller. The
  store is left as it was.
\<close>

theorem saveAnswer_inherited_name_throws:
  "field (props_of (field (props_of (Some (storageData loaded_store))) ''years'')) ''constructor''
     = None
   \<and> saveAnswer sample_now 0 ''constructor'' ''past'' ''q1'' (JStr ''x'') loaded_store
     = (Throws TypeError, loaded_store)"
  by (simp add: loaded_store_def fresh_store_def one_year_def field_def saveAnswer_def
        js_get_def object_prototype_keys_def)

theorem saveAnswer_inherited_name_throws_witness:
  "field (props_of (field (props_of (Some (storageData loaded_store))) ''years'')) ''constructor''
     = None
   \<and> fst (saveAnswer sample_now 0 ''constructor'' ''past'' ''q1'' (JStr ''x'') loaded_store)
     = Throws TypeError"
  using saveAnswer_inherited_name_throws by simp


subsection \<open>Well-formed documents\<close>

lemma not_object_iff: "\<not> not_object x \<longleftrightarrow> (\<exists>ps. x = Some (JObj ps))"
proof (cases x)
  case None
  then show ?thesis by (simp add: not_object_def)
next
  case (Some v)
  then show ?thesis by (cases v) (simp_all add: not_object_def)
qed

lemma set_object_keys: "set (object_keys ps) = fst ` set ps"
  by (auto simp: object_keys_def own_keys_def)

lemma field_in_keys: "field ps k = Some v \<Longrightarrow> k \<in> set (object_keys ps)"
  by (auto simp: set_object_keys field_def dest: map_of_SomeD intro: rev_image_eqI)

lemma keys_have_field: "k \<in> set (object_keys ps) \<Longrightarrow> \<exists>v. field ps k = Some v"
proof -
  assume "k \<in> set (object_keys ps)"
  then obtain v where "(k, v) \<in> set ps"
    by (auto simp: set_object_keys)
  then show ?thesis
    using weak_map_of_SomeI [of k v ps] by (simp add: field_def)
qed

lemma year_wellformedD:
  assumes "\<not> year_defect (Some y)"
  shows "\<exists>yp secs. y = JObj yp \<and> field yp ''sections'' = Some (JObj secs)
           \<and> (\<forall>s sec. field secs s = Some sec \<longrightarrow>
                 (\<exists>sp a. sec = JObj sp \<and> field sp ''answers'' = Some (JObj a)))"
proof -
  from assms obtain yp where y: "y = JObj yp"
    by (auto simp: year_defect_def not_object_iff)
  with assms obtain secs where secs: "field yp ''sections'' = Some (JObj secs)"
    by (auto simp: year_defect_def not_object_iff)
  have "\<exists>sp a. sec = JObj sp \<and> field sp ''answers'' = Some (JObj a)"
    if "field secs s = Some sec" for s sec
  proof -
    from that have "s \<in> set (object_keys secs)"
      by (rule field_in_keys)
    with assms y secs that have "\<not> section_defect (Some sec)"
      by (auto simp: year_defect_def list_ex_iff)
    then show ?thesis
      by (auto simp: section_defect_def not_object_iff)
  qed
  with y secs show ?thesis
    by blast
qed

lemma years_wellformedD:
  assumes "years_wellformed D"
  shows "\<exists>d years. D = JObj d \<and> field d ''years'' = Some (JObj years)
           \<and> (\<forall>k y. field years k = Some y \<longrightarrow> \<not> year_defect (Some y))"
proof -
  from assms obtain d where d: "D = JObj d"
    by (cases D) (simp_all add: years_wellformed_def)
  with assms obtain years where years: "field d ''years'' = Some (JObj years)"
    by (auto simp: years_wellformed_def split: option.splits jsval.splits)
  have "\<not> year_defect (Some y)" if "field years k = Some y" for k y
  proof -
    from that have "k \<in> set (object_keys years)"
      by (rule field_in_keys)
    with assms d years that show ?thesis
      by (auto simp: years_wellformed_def list_all_iff)
  qed
  with d years show ?thesis
    by blast
qed

lemma prefix_len_Nil [simp]: "prefix_len ws [] = 0"
  by (induction ws) auto

lemma js_trim_Nil [simp]: "js_trim [] = []"
  by (simp add: js_trim_def)

lemma is_filled_iff: "is_filled v \<longleftrightarrow> (\<exists>s. v = JStr s \<and> js_trim s \<noteq> [])"
  by (cases v) auto

lemma set_object_values: "set (object_values ps) = {v. \<exists>k. field ps k = Some v}"
proof -
  have "set (object_values ps) = {v. \<exists>k\<in>set (object_keys ps). field ps k = Some v}"
    by (force simp: object_values_def List.map_filter_def)
  also have "\<dots> = {v. \<exists>k. field ps k = Some v}"
    using field_in_keys by blast
  finally show ?thesis .
qed

lemma some_filled_object:
  "some_filled (Some (JObj a)) \<longleftrightarrow> (\<exists>k s. field a k = Some (JStr s) \<and> js_trim s \<noteq> [])"
  by (auto simp: some_filled_def list_ex_iff set_object_values is_filled_iff)

lemma js_trim_blank3: "js_trim ''   '' = []"
  by (simp add: js_trim_def js_whitespace_def)

lemma js_trim_hello: "js_trim ''hello'' = ''hello''"
  by (simp add: js_trim_def js_whitespace_def)

text \<open>
  C9. On a store whose document satisfies the invariants of the data model,
  \<^verbatim>\<open>isSectionStarted(sectionId)\<close> returns true exactly when the current year's section has an
  answer that is a string whose trimmed value is not empty, and it returns the store as it
  found it. For the answers \<^verbatim>\<open>{"a": "  ", "b": "hello"}\<close> it returns true, for
  \<^verbatim>\<open>{"a": "   "}\<close> false.
\<close>

theorem isSectionStarted_iff:
  assumes "doc_invariants (storageData st)"
  shows "isSectionStarted sectionId st
           = (Returns (\<exists>k s. field (current_answers st sectionId) k = Some (JStr s)
                              \<and> js_trim s \<noteq> []), st)"
proof -
  from assms have wf: "years_wellformed (storageData st)"
      and res: "currentYear_resolves (storageData st)"
    by (simp_all add: doc_invariants_def)
  from years_wellformedD [OF wf] obtain d years
    where d: "storageData st = JObj d" and years: "field d ''years'' = Some (JObj years)"
      and ok: "\<And>k y. field years k = Some y \<Longrightarrow> \<not> year_defect (Some y)"
    by blast
  show ?thesis
  proof (cases "\<exists>y. field d ''currentYear'' = Some (JStr y) \<and> y \<noteq> []")
    case False
    with res d have "getCurrentYear st = Returns Undefined"
      by (auto simp: getCurrentYear_def currentYear_resolves_def
          split: option.splits jsval.splits)
    moreover from False have "current_answers st sectionId = []"
      by (auto simp: current_answers_def d field_def split: option.splits jsval.splits)
    ultimately show ?thesis
      by (simp add: isSectionStarted_def field_def)
  next
    case True
    then obtain y where cy: "field d ''currentYear'' = Some (JStr y)" and y: "y \<noteq> []"
      by blast
    with res d years have "y \<in> set (object_keys years)"
      by (simp add: currentYear_resolves_def)
    then obtain yv where yv: "field years y = Some yv"
      using keys_have_field by blast
    from year_wellformedD [OF ok [OF yv]] obtain yp secs
      where yp: "yv = JObj yp" and secs: "field yp ''sections'' = Some (JObj secs)"
        and sec_ok: "\<And>s sec. field secs s = Some sec \<Longrightarrow>
               \<exists>sp a. sec = JObj sp \<and> field sp ''answers'' = Some (JObj a)"
      by blast
    have cur: "getCurrentYear st = Returns (Own (JObj yp))"
      using d cy y years yv yp
      by (simp add: getCurrentYear_def js_get_def field_def)
    show ?thesis
    proof (cases "field secs sectionId")
      case None
      then have "section_answers (js_get secs sectionId) = None"
        by (simp add: section_answers_def js_get_def field_def)
      moreover from None have "current_answers st sectionId = []"
        using d cy y years yv yp secs by (simp add: current_answers_def) (simp add: field_def)
      ultimately show ?thesis
        using cur secs by (simp add: isSectionStarted_def) (simp add: field_def)
    next
      case (Some sec)
      from sec_ok [OF Some] obtain sp a
        where sp: "sec = JObj sp" and a: "field sp ''answers'' = Some (JObj a)"
        by blast
      have "section_answers (js_get secs sectionId) = Some (JObj a)"
        using Some sp a by (simp add: section_answers_def js_get_def field_def)
      moreover have "current_answers st sectionId = a"
        using d cy y years yv yp secs Some sp a by (simp add: current_answers_def)
      ultimately show ?thesis
        using cur secs by (simp add: isSectionStarted_def some_filled_object)
    qed
  qed
qed

theorem isSectionStarted_iff_witness:
  "isSectionStarted ''x''
      (fresh_store\<lparr>storageData := answered [(''a'', JStr ''  ''), (''b'', JStr ''hello'')]\<rparr>)
     = (Returns True,
        fresh_store\<lparr>storageData := answered [(''a'', JStr ''  ''), (''b'', JStr ''hello'')]\<rparr>)
   \<and> isSectionStarted ''x'' (fresh_store\<lparr>storageData := answered [(''a'', JStr ''   '')]\<rparr>)
     = (Returns False, fresh_store\<lparr>storageData := answered [(''a'', JStr ''   '')]\<rparr>)"
proof -
  have inv: "doc_invariants (answered ans)" for ans
    by (simp add: doc_invariants_def years_wellformed_def currentYear_resolves_def
          answered_def field_def year_defect_def section_defect_def not_object_def
          object_keys_def own_keys_def is_array_index_def is_digit_def default_settings_def)
  have ans: "current_answers (fresh_store\<lparr>storageData := answered a\<rparr>) ''x'' = a" for a
    by (simp add: current_answers_def answered_def field_def)
  have yes: "\<exists>k s. field [(''a'', JStr ''  ''), (''b'', JStr ''hello'')] k = Some (JStr s)
                  \<and> js_trim s \<noteq> []"
    by (rule exI [of _ "''b''"], rule exI [of _ "''hello''"])
       (simp add: field_def js_trim_hello)
  have no: "\<not> (\<exists>k s. field [(''a'', JStr ''   '')] k = Some (JStr s) \<and> js_trim s \<noteq> [])"
    by (auto simp: field_def js_trim_blank3 split: if_splits)
  show ?thesis
    using isSectionStarted_iff
            [where st = "fresh_store\<lparr>storageData := answered [(''a'', JStr ''  ''), (''b'', JStr ''hello'')]\<rparr>"
               and sectionId = "''x''"]
          isSectionStarted_iff
            [where st = "fresh_store\<lparr>storageData := answered [(''a'', JStr ''   '')]\<rparr>"
               and sectionId = "''x''"]
          inv yes no
    by (simp add: ans)
qed


section \<open>Export and import of a valid document\<close>

lemma set_prop_same: "field ps k = Some v \<Longrightarrow> set_prop ps k v = ps"
  by (simp add: field_def set_prop_def update_triv)

lemma repair_section_id:
  "\<not> section_defect (field secs k) \<Longrightarrow> repair_section k (secs, r) = (secs, r)"
  by (simp add: repair_section_def section_defect_def Let_def)

lemma fold_repair_section_id:
  "\<forall>k\<in>set ks. \<not> section_defect (field secs k) \<Longrightarrow>
   fold repair_section ks (secs, r) = (secs, r)"
  by (induction ks) (simp_all add: repair_section_id)

lemma backfill_year_id:
  assumes "year_labelled k (Some (JObj yp))"
  shows "backfill_year now k yp = yp"
proof -
  from assms have id: "field yp ''id'' = Some (JStr k)"
    by (simp add: year_labelled_def)
  from assms obtain n where n: "field yp ''displayName'' = Some (JStr n)"
      and n': "n \<noteq> [] \<or> n = display_name k"
    by (auto simp: year_labelled_def split: option.splits jsval.splits)
  from assms have t: "truthy_opt (field yp ''createdAt'')"
      "truthy_opt (field yp ''lastModified'')"
    by (auto simp: year_labelled_def is_timestamp_def split: option.splits jsval.splits)
  have e1: "(if \<not> truthy_opt (field yp ''id'') then set_prop yp ''id'' (JStr k) else yp) = yp"
    using id by (simp add: set_prop_same)
  have e2: "(if \<not> truthy_opt (field yp ''displayName'')
             then set_prop yp ''displayName'' (JStr (display_name k)) else yp) = yp"
    using n n' by (auto simp: set_prop_same)
  show ?thesis
    unfolding backfill_year_def Let_def e1 e2 using t by simp
qed

lemma repair_year_id:
  assumes "\<not> year_defect (field years k)" and "year_labelled k (field years k)"
  shows "repair_year now k (years, r) = (years, r)"
proof -
  from assms(1) obtain yp where yp: "field years k = Some (JObj yp)"
    by (auto simp: year_defect_def not_object_iff)
  with assms(1) obtain secs where secs: "field yp ''sections'' = Some (JObj secs)"
    by (auto simp: year_defect_def not_object_iff)
  from assms(1) yp secs have all: "\<forall>s\<in>set (object_keys secs). \<not> section_defect (field secs s)"
    by (simp add: year_defect_def list_ex_iff)
  have b: "backfill_year now k yp = yp"
    using assms(2) yp by (simp add: backfill_year_id)
  have s: "\<not> not_object (field yp ''sections'')" "props_of (field yp ''sections'') = secs"
      "set_prop yp ''sections'' (JObj secs) = yp"
    using secs by (simp_all add: not_object_def set_prop_same)
  have f: "fold repair_section (object_keys secs) (secs, r) = (secs, r)"
    using all by (rule fold_repair_section_id)
  have y: "\<not> not_object (field years k)" "props_of (field years k) = yp"
      "set_prop years k (JObj yp) = years"
    using yp by (simp_all add: not_object_def set_prop_same)
  show ?thesis
    by (simp add: repair_year_def Let_def b s f y)
qed

lemma fold_repair_year_id:
  "\<forall>k\<in>set ks. \<not> year_defect (field years k) \<and> year_labelled k (field years k) \<Longrightarrow>
   fold (repair_year now) ks (years, r) = (years, r)"
  by (induction ks) (simp_all add: repair_year_id)

lemma validateAndRepairData_valid_document:
  assumes "valid_document D"
  shows "validateAndRepairData now D st
           = (Returns \<lparr>valid = True, repaired = False, data = D\<rparr>, st)"
proof -
  from assms have inv: "doc_invariants D"
    by (simp add: valid_document_def Let_def)
  then have wf: "years_wellformed D" and res: "currentYear_resolves D"
    by (simp_all add: doc_invariants_def)
  from years_wellformedD [OF wf] obtain d years
    where d: "D = JObj d" and years: "field d ''years'' = Some (JObj years)"
      and ok: "\<And>k y. field years k = Some y \<Longrightarrow> \<not> year_defect (Some y)"
    by blast
  from inv d have ver: "typeof_opt (field d ''version'') = ''number''"
      and set: "\<not> not_object (field d ''settings'')"
    by (simp_all add: doc_invariants_def)
  have top: "repair_toplevel d = (d, False)"
    using ver set years by (simp add: repair_toplevel_def not_object_def)
  have cur: "repair_currentYear (d, False) = Returns (d, False)"
  proof (cases "field d ''currentYear''")
    case None
    then show ?thesis by (simp add: repair_currentYear_def)
  next
    case (Some cy)
    show ?thesis
    proof (cases "truthy cy")
      case False
      with Some show ?thesis by (simp add: repair_currentYear_def)
    next
      case True
      with res d Some years obtain y where cy: "cy = JStr y"
          and y: "y \<in> set (object_keys years)"
        by (cases cy) (auto simp: currentYear_resolves_def)
      from y obtain yv where yv: "field years y = Some yv"
        using keys_have_field by blast
      from year_wellformedD [OF ok [OF yv]] have "truthy yv"
        by auto
      with Some cy years yv True show ?thesis
        by (simp add: repair_currentYear_def js_get_def field_def)
    qed
  qed
  have all: "\<forall>k\<in>set (object_keys years).
       \<not> year_defect (field years k) \<and> year_labelled k (field years k)"
  proof
    fix k
    assume k: "k \<in> set (object_keys years)"
    then obtain yv where "field years k = Some yv"
      using keys_have_field by blast
    then have "\<not> year_defect (field years k)"
      using ok by simp
    moreover from assms d years k have "year_labelled k (field years k)"
      by (simp add: valid_document_def list_all_iff)
    ultimately show "\<not> year_defect (field years k) \<and> year_labelled k (field years k)"
      by simp
  qed
  show ?thesis
    using d top cur years
    by (simp add: validateAndRepairData_def fold_repair_year_id [OF all] set_prop_same)
qed

text \<open>
  C5, as the code has it. For a store whose document satisfies the invariants and whose
  year entries each carry an \<^verbatim>\<open>id\<close> equal to the key, a \<^verbatim>\<open>displayName\<close>, a \<^verbatim>\<open>createdAt\<close> and
  a \<^verbatim>\<open>lastModified\<close>, with a backend whose writes succeed and a \<^verbatim>\<open>JSON.parse\<close> that gives
  the document back from its export, \<^verbatim>\<open>importData(exportData())\<close> returns \<^verbatim>\<open>success = true\<close>
  and leaves the document in \<^verbatim>\<open>storageData\<close> equal to what it was, \<^verbatim>\<open>lastModified\<close> fields
  included.
\<close>

theorem importData_exportData_roundtrip:
  assumes "valid_document (storageData st)"
    and "json_parse J (exportData J st) = Some (storageData st)"
    and "writes_succeed (backend st)"
  shows "fst (importData J now (exportData J st) st)
           = \<lparr>success = True, message = ''Data imported successfully.''\<rparr>
         \<and> storageData (snd (importData J now (exportData J st) st)) = storageData st"
proof -
  let ?st2 = "st\<lparr>storageData := storageData st\<rparr>"
  have v: "validateAndRepairData now (storageData st) st
             = (Returns \<lparr>valid = True, repaired = False, data = storageData st\<rparr>, st)"
    using assms(1) by (rule validateAndRepairData_valid_document)
  have "fst (saveToLocalStorage J ?st2)"
    using saveToLocalStorage_succeeds [of ?st2 J] assms(3) by simp
  then show ?thesis
    using assms(2) v
    by (simp add: importData_def split_def)
qed

theorem importData_exportData_roundtrip_witness:
  "fst (importData (sample_json sample_docs) sample_now
          (exportData (sample_json sample_docs) loaded_store) loaded_store)
     = \<lparr>success = True, message = ''Data imported successfully.''\<rparr>
   \<and> storageData (snd (importData (sample_json sample_docs) sample_now
          (exportData (sample_json sample_docs) loaded_store) loaded_store)) = one_year"
proof -
  have s: "storageData loaded_store = one_year"
    by (simp add: loaded_store_def fresh_store_def)
  have "valid_document one_year"
    by (simp add: valid_document_def doc_invariants_def years_wellformed_def
          currentYear_resolves_def one_year_def field_def year_defect_def section_defect_def
          not_object_def object_keys_def own_keys_def is_array_index_def is_digit_def
          default_settings_def year_labelled_def is_timestamp_def)
  moreover have "json_parse (sample_json sample_docs)
                   (exportData (sample_json sample_docs) loaded_store) = Some one_year"
    using sample_parse_one_year by (simp add: exportData_def s sample_json_def)
  moreover have "writes_succeed (backend loaded_store)"
    by (simp add: writes_succeed_def loaded_store_def fresh_store_def working_backend_def)
  ultimately show ?thesis
    using importData_exportData_roundtrip
            [where st = loaded_store and J = "sample_json sample_docs" and now = sample_now]
    by (simp add: s)
qed

text \<open>
  C5, as stated for every document that satisfies the invariants, fails: the document
  whose one year is \<^verbatim>\<open>{sections: {}}\<close> satisfies the five of them, its export parses back to
  it, the writes succeed and the import returns \<^verbatim>\<open>success = true\<close>; but the validation of the
  import backfills \<^verbatim>\<open>id\<close>, \<^verbatim>\<open>displayName\<close>, \<^verbatim>\<open>createdAt\<close> and \<^verbatim>\<open>lastModified\<close> (lines 116 to
  119), and the document in \<^verbatim>\<open>storageData\<close> is no longer the one exported.
\<close>

theorem importData_exportData_backfills:
  "doc_invariants (storageData unlabelled_store)
   \<and> writes_succeed (backend unlabelled_store)
   \<and> json_parse (sample_json [unlabelled_year])
         (exportData (sample_json [unlabelled_year]) unlabelled_store)
       = Some (storageData unlabelled_store)
   \<and> fst (importData (sample_json [unlabelled_year]) sample_now
            (exportData (sample_json [unlabelled_year]) unlabelled_store) unlabelled_store)
       = \<lparr>success = True, message = ''Data imported successfully.''\<rparr>
   \<and> storageData (snd (importData (sample_json [unlabelled_year]) sample_now
            (exportData (sample_json [unlabelled_year]) unlabelled_store) unlabelled_store))
       = unlabelled_year_backfilled
   \<and> unlabelled_year_backfilled \<noteq> storageData unlabelled_store"
proof -
  let ?J = "sample_json [unlabelled_year]"
  let ?st2 = "unlabelled_store\<lparr>storageData := unlabelled_year_backfilled\<rparr>"
  have s: "storageData unlabelled_store = unlabelled_year"
    by (simp add: unlabelled_store_def fresh_store_def)
  have inv: "doc_invariants unlabelled_year"
    by (simp add: doc_invariants_def years_wellformed_def currentYear_resolves_def
          unlabelled_year_def field_def year_defect_def section_defect_def not_object_def
          object_keys_def own_keys_def is_array_index_def is_digit_def)
  have w: "writes_succeed (backend unlabelled_store)"
    by (simp add: writes_succeed_def unlabelled_store_def fresh_store_def working_backend_def)
  have p: "json_parse ?J (exportData ?J unlabelled_store) = Some unlabelled_year"
    by (simp add: exportData_def s sample_json_def)
  have v: "validateAndRepairData sample_now unlabelled_year unlabelled_store
             = (Returns \<lparr>valid = True, repaired = False, data = unlabelled_year_backfilled\<rparr>,
                unlabelled_store)"
    by (simp add: vr_eval unlabelled_year_def unlabelled_year_backfilled_def)
  have "fst (saveToLocalStorage ?J ?st2)"
    using saveToLocalStorage_succeeds [of ?st2 ?J] w by simp
  then have "fst (importData ?J sample_now (exportData ?J unlabelled_store) unlabelled_store)
               = \<lparr>success = True, message = ''Data imported successfully.''\<rparr>
             \<and> storageData (snd (importData ?J sample_now (exportData ?J unlabelled_store)
                   unlabelled_store)) = unlabelled_year_backfilled"
    using p v by (simp add: importData_def split_def)
  moreover have "unlabelled_year_backfilled \<noteq> unlabelled_year"
    by (simp add: unlabelled_year_backfilled_def unlabelled_year_def)
  ultimately show ?thesis
    using inv w p by (simp add: s)
qed


section \<open>The debounced save\<close>

lemma year_wellformedI:
  assumes "field yp ''sections'' = Some (JObj secs)"
    and "\<And>s sec. field secs s = Some sec \<Longrightarrow>
           \<exists>sp a. sec = JObj sp \<and> field sp ''answers'' = Some (JObj a)"
  shows "\<not> year_defect (Some (JObj yp))"
proof -
  have "\<not> section_defect (field secs s)" if "s \<in> set (object_keys secs)" for s
  proof -
    from that obtain sec where "field secs s = Some sec"
      using keys_have_field by blast
    moreover from this obtain sp a where "sec = JObj sp" "field sp ''answers'' = Some (JObj a)"
      using assms(2) by blast
    ultimately show ?thesis
      by (simp add: section_defect_def not_object_def)
  qed
  with assms(1) show ?thesis
    by (auto simp: year_defect_def not_object_iff list_ex_iff)
qed

lemma years_wellformedI:
  assumes "field d ''years'' = Some (JObj years)"
    and "\<And>k y. field years k = Some y \<Longrightarrow> \<not> year_defect (Some y)"
  shows "years_wellformed (JObj d)"
proof -
  have "\<not> year_defect (field years k)" if "k \<in> set (object_keys years)" for k
  proof -
    from that obtain y where "field years k = Some y"
      using keys_have_field by blast
    with assms(2) show ?thesis
      by simp
  qed
  with assms(1) show ?thesis
    by (simp add: years_wellformed_def list_all_iff)
qed

lemma write_answer_ok:
  assumes ok: "\<And>s sec. field secs s = Some sec \<Longrightarrow>
           \<exists>sp a. sec = JObj sp \<and> field sp ''answers'' = Some (JObj a)"
    and s: "sectionId \<notin> set object_prototype_keys" and f: "fieldId \<noteq> ''__proto__''"
  shows "\<exists>secs' sp' a'. write_answer secs sectionId fieldId v = Returns secs'
           \<and> field secs' sectionId = Some (JObj sp')
           \<and> field sp' ''answers'' = Some (JObj a') \<and> field a' fieldId = Some v
           \<and> (\<forall>s'. s' \<noteq> sectionId \<longrightarrow> field secs' s' = field secs s')"
proof (cases "field secs sectionId")
  case None
  then have get: "js_get secs sectionId = Undefined"
    using s by (simp add: js_get_def field_def)
  have get1: "js_get (set_prop secs sectionId default_section) sectionId = Own default_section"
    using field_set_prop [of secs sectionId default_section sectionId]
    by (simp add: js_get_def field_def)
  have ap: "assign_prop [] fieldId v = Returns (set_prop [] fieldId v)"
    using f by (simp add: assign_prop_def)
  have fa: "field [(''completed'', JBool False), (''answers'', JObj [])] ''answers''
              = Some (JObj [])"
    by (simp add: field_def)
  have "write_answer secs sectionId fieldId v
          = Returns (set_prop (set_prop secs sectionId default_section) sectionId
               (JObj (set_prop [(''completed'', JBool False), (''answers'', JObj [])]
                         ''answers'' (JObj (set_prop [] fieldId v)))))"
    using get get1 by (simp add: write_answer_def Let_def) (simp add: default_section_def fa ap)
  then show ?thesis
    by (simp add: field_set_prop)
next
  case (Some sec)
  from ok [OF Some] obtain sp a where sp: "sec = JObj sp"
      and a: "field sp ''answers'' = Some (JObj a)"
    by blast
  have get: "js_get secs sectionId = Own (JObj sp)"
    using Some sp by (simp add: js_get_def field_def)
  have ap: "assign_prop a fieldId v = Returns (set_prop a fieldId v)"
    using f by (simp add: assign_prop_def)
  have "write_answer secs sectionId fieldId v
          = Returns (set_prop secs sectionId
               (JObj (set_prop sp ''answers'' (JObj (set_prop a fieldId v)))))"
    using get a by (simp add: write_answer_def Let_def ap)
  then show ?thesis
    by (simp add: field_set_prop)
qed

lemma year_ids_set_prop:
  assumes "field d ''years'' = Some (JObj years)" and "field years k = Some y"
  shows "year_ids (JObj (set_prop d ''years'' (JObj (set_prop years k y')))) = year_ids (JObj d)"
proof -
  have "k \<in> fst ` set years"
    using field_in_keys [OF assms(2)] by (simp add: set_object_keys)
  then have c: "fst ` set (set_prop years k y') = fst ` set years"
    by (auto simp: set_prop_def dom_update)
  have a: "year_ids (JObj (set_prop d ''years'' (JObj Y))) = fst ` set Y" for Y
    by (simp add: year_ids_def field_set_prop set_object_keys)
  have b: "year_ids (JObj d) = fst ` set years"
    using assms(1) by (simp add: year_ids_def set_object_keys)
  show ?thesis
    by (simp only: a b c)
qed

lemma saveAnswer_schedules:
  assumes wf: "years_wellformed (storageData st)"
    and y: "yearId \<in> year_ids (storageData st)"
    and s: "sectionId \<notin> set object_prototype_keys" and f: "fieldId \<noteq> ''__proto__''"
  shows "\<exists>D'. saveAnswer now clock yearId sectionId fieldId v st
                 = (Returns (), st\<lparr>storageData := D', saveTimeout := Some (clock + 300)\<rparr>)
           \<and> years_wellformed D' \<and> year_ids D' = year_ids (storageData st)
           \<and> answer_at D' yearId sectionId fieldId = Some v"
proof -
  from years_wellformedD [OF wf] obtain d years
    where d: "storageData st = JObj d" and years: "field d ''years'' = Some (JObj years)"
      and ok: "\<And>k y. field years k = Some y \<Longrightarrow> \<not> year_defect (Some y)"
    by blast
  from y d years obtain yv where yv: "field years yearId = Some yv"
    using keys_have_field by (auto simp: year_ids_def)
  from year_wellformedD [OF ok [OF yv]] obtain yp secs
    where yp: "yv = JObj yp" and secs: "field yp ''sections'' = Some (JObj secs)"
      and sec_ok: "\<And>s sec. field secs s = Some sec \<Longrightarrow>
             \<exists>sp a. sec = JObj sp \<and> field sp ''answers'' = Some (JObj a)"
    by blast
  have "\<exists>secs' sp' a'. write_answer secs sectionId fieldId v = Returns secs'
           \<and> field secs' sectionId = Some (JObj sp')
           \<and> field sp' ''answers'' = Some (JObj a') \<and> field a' fieldId = Some v
           \<and> (\<forall>s'. s' \<noteq> sectionId \<longrightarrow> field secs' s' = field secs s')"
  proof (rule write_answer_ok)
    fix s sec
    assume "field secs s = Some sec"
    then show "\<exists>sp a. sec = JObj sp \<and> field sp ''answers'' = Some (JObj a)"
      by (rule sec_ok)
  qed (rule s, rule f)
  then obtain secs' sp' a'
    where w: "write_answer secs sectionId fieldId v = Returns secs'"
      and w1: "field secs' sectionId = Some (JObj sp')"
      and w2: "field sp' ''answers'' = Some (JObj a')" and w3: "field a' fieldId = Some v"
      and w4: "\<And>s'. s' \<noteq> sectionId \<Longrightarrow> field secs' s' = field secs s'"
    by blast
  let ?year' = "set_prop (set_prop yp ''sections'' (JObj secs')) ''lastModified'' (JStr now)"
  let ?years' = "set_prop years yearId (JObj ?year')"
  let ?D' = "JObj (set_prop d ''years'' (JObj ?years'))"
  have run: "saveAnswer now clock yearId sectionId fieldId v st
               = (Returns (), st\<lparr>storageData := ?D', saveTimeout := Some (clock + 300)\<rparr>)"
    using d years yv yp secs w
    by (simp add: saveAnswer_def js_get_def field_def debouncedSave_def)
  have secs'_ok: "\<exists>sp a. sec = JObj sp \<and> field sp ''answers'' = Some (JObj a)"
    if "field secs' s' = Some sec" for s' sec
  proof (cases "s' = sectionId")
    case True
    with that w1 w2 show ?thesis by auto
  next
    case False
    with that w4 sec_ok show ?thesis by simp
  qed
  have year'_ok: "\<not> year_defect (Some (JObj ?year'))"
  proof (rule year_wellformedI [where secs = secs'])
    show "field ?year' ''sections'' = Some (JObj secs')"
      by (simp add: field_set_prop)
  next
    fix s' sec
    assume "field secs' s' = Some sec"
    then show "\<exists>sp a. sec = JObj sp \<and> field sp ''answers'' = Some (JObj a)"
      by (rule secs'_ok)
  qed
  have "\<not> year_defect (Some y')" if "field ?years' k = Some y'" for k y'
  proof (cases "k = yearId")
    case True
    with that year'_ok show ?thesis by (simp add: field_set_prop)
  next
    case False
    with that ok show ?thesis by (simp add: field_set_prop)
  qed
  then have wf': "years_wellformed ?D'"
    by (intro years_wellformedI [where years = ?years']) (simp_all add: field_set_prop)
  have ids: "year_ids ?D' = year_ids (storageData st)"
    using year_ids_set_prop [OF years yv] d by simp
  have ans: "answer_at ?D' yearId sectionId fieldId = Some v"
    using w1 w2 w3 by (simp add: answer_at_def field_set_prop)
  from run wf' ids ans show ?thesis
    by blast
qed


lemma elapse_early:
  "\<forall>due. saveTimeout st = Some due \<longrightarrow> t + gap < due \<Longrightarrow>
   elapse J gap (t, st) = (t + gap, st)"
  by (auto simp: elapse_def split: option.splits)

lemma run_calls_pending:
  assumes "calls \<noteq> []"
    and "\<forall>c\<in>set calls. fst c < 300 \<and> takes_effect D c"
    and "years_wellformed (storageData st)" and "year_ids (storageData st) = year_ids D"
    and "\<forall>due. saveTimeout st = Some due \<longrightarrow> t + 300 \<le> due"
  shows "\<exists>t1 st1. run_calls J stamp calls (t, st) = (t1, st1)
           \<and> saveTimeout st1 = Some (t1 + 300)
           \<and> backend st1 = backend st \<and> notified st1 = notified st
           \<and> (case last calls of (gap, yearId, sectionId, fieldId, v) \<Rightarrow>
                 answer_at (storageData st1) yearId sectionId fieldId = Some v)"
  using assms
proof (induction calls arbitrary: t st)
  case Nil
  then show ?case by simp
next
  case (Cons c rest)
  obtain gap yearId sectionId fieldId v where c: "c = (gap, yearId, sectionId, fieldId, v)"
    by (cases c)
  from Cons.prems(2) c have gap: "gap < 300"
      and eff: "yearId \<in> year_ids D" "sectionId \<notin> set object_prototype_keys"
        "fieldId \<noteq> ''__proto__''"
    by (simp_all add: takes_effect_def)
  have early: "elapse J gap (t, st) = (t + gap, st)"
    using Cons.prems(5) gap by (intro elapse_early) auto
  from saveAnswer_schedules [OF Cons.prems(3) _ eff(2) eff(3),
      where yearId = yearId and now = "stamp (t + gap)" and clock = "t + gap" and v = v]
    eff(1) Cons.prems(4)
  obtain D' where
    sa: "saveAnswer (stamp (t + gap)) (t + gap) yearId sectionId fieldId v st
           = (Returns (), st\<lparr>storageData := D', saveTimeout := Some (t + gap + 300)\<rparr>)"
    and wf': "years_wellformed D'" and ids': "year_ids D' = year_ids (storageData st)"
    and ans: "answer_at D' yearId sectionId fieldId = Some v"
    by auto
  let ?st' = "st\<lparr>storageData := D', saveTimeout := Some (t + gap + 300)\<rparr>"
  have step: "run_calls J stamp (c # rest) (t, st) = run_calls J stamp rest (t + gap, ?st')"
    using c early sa by simp
  show ?case
  proof (cases "rest = []")
    case True
    with step c ans show ?thesis by simp
  next
    case False
    have "\<exists>t1 st1. run_calls J stamp rest (t + gap, ?st') = (t1, st1)
           \<and> saveTimeout st1 = Some (t1 + 300)
           \<and> backend st1 = backend ?st' \<and> notified st1 = notified ?st'
           \<and> (case last rest of (gap, yearId, sectionId, fieldId, v) \<Rightarrow>
                 answer_at (storageData st1) yearId sectionId fieldId = Some v)"
      using False Cons.prems(2) wf' ids' Cons.prems(4)
      by (intro Cons.IH) auto
    with step False show ?thesis by simp
  qed
qed

text \<open>
  C8, as the code has it. Take a well-formed document, no save pending, a backend whose
  writes succeed, and a burst of calls that take effect, the first less than 300 ms after
  the start and each next one less than 300 ms after the one before. Nothing is written
  during the burst. When 300 ms have passed after the last call the timer fires once: the
  probe writes and removes its test key, and one write stores the record, the serialisation
  of \<^verbatim>\<open>storageData\<close> as it is then, which holds the value of the last call. No timer is left
  pending.
\<close>

theorem debounced_burst_one_write:
  assumes "years_wellformed (storageData st)" and "saveTimeout st = None"
    and "writes_succeed (backend st)"
    and "calls \<noteq> []"
    and "\<forall>c\<in>set calls. fst c < 300 \<and> takes_effect (storageData st) c"
    and "300 \<le> quiet"
    and "run_calls J stamp calls (t, st) = (t1, st1)"
    and "elapse J quiet (t1, st1) = (t2, st2)"
  shows "writes (backend st1) = writes (backend st)
         \<and> writes (backend st2)
             = writes (backend st)
                 @ [(testKey, ''test''), (STORAGE_KEY, json_stringify J (storageData st1))]
         \<and> (case last calls of (gap, yearId, sectionId, fieldId, v) \<Rightarrow>
               answer_at (storageData st1) yearId sectionId fieldId = Some v)
         \<and> saveTimeout st2 = None \<and> storageData st2 = storageData st1"
proof -
  from run_calls_pending [OF assms(4) assms(5) assms(1), where t = t and J = J and stamp = stamp]
    assms(2) assms(7)
  have pend: "saveTimeout st1 = Some (t1 + 300)" and b: "backend st1 = backend st"
    and ans: "case last calls of (gap, yearId, sectionId, fieldId, v) \<Rightarrow>
               answer_at (storageData st1) yearId sectionId fieldId = Some v"
    by auto
  from assms(6) assms(8) pend have st2: "st2 = timer_fires J st1"
    by (auto simp: elapse_def)
  have ok: "writes_succeed (backend st1)"
    using assms(3) b by simp
  from saveToLocalStorage_succeeds [OF ok, of J] b st2
  have "writes (backend st2)
          = writes (backend st)
              @ [(testKey, ''test''), (STORAGE_KEY, json_stringify J (storageData st1))]"
    and "saveTimeout st2 = None" and "storageData st2 = storageData st1"
    by (simp_all add: timer_fires_def split_def)
  with b ans show ?thesis
    by simp
qed

theorem debounced_burst_one_write_witness:
  "writes (backend (snd (elapse (sample_json sample_docs) 300
       (run_calls (sample_json sample_docs) (\<lambda>t. sample_now) three_edits (0, loaded_store)))))
     = [(testKey, ''test''),
        (STORAGE_KEY, sample_stringify (storageData (snd
           (run_calls (sample_json sample_docs) (\<lambda>t. sample_now) three_edits
              (0, loaded_store)))))]
   \<and> answer_at (storageData (snd
           (run_calls (sample_json sample_docs) (\<lambda>t. sample_now) three_edits
              (0, loaded_store)))) ''2024-2025'' ''past'' ''q1'' = Some (JStr ''abc'')"
proof -
  let ?J = "sample_json sample_docs"
  let ?w1 = "run_calls ?J (\<lambda>t. sample_now) three_edits (0, loaded_store)"
  let ?w2 = "elapse ?J 300 ?w1"
  have s: "storageData loaded_store = one_year" "saveTimeout loaded_store = None"
      "writes (backend loaded_store) = []"
    by (simp_all add: loaded_store_def fresh_store_def working_backend_def)
  have wf: "years_wellformed (storageData loaded_store)"
    by (simp add: s years_wellformed_def one_year_def field_def year_defect_def
          section_defect_def not_object_def object_keys_def own_keys_def is_array_index_def
          is_digit_def)
  have ok: "writes_succeed (backend loaded_store)"
    by (simp add: writes_succeed_def loaded_store_def fresh_store_def working_backend_def)
  have ids: "year_ids one_year = {''2024-2025''}"
    by (simp add: year_ids_def one_year_def field_def object_keys_def own_keys_def
          is_array_index_def is_digit_def)
  have eff: "\<forall>c\<in>set three_edits. fst c < 300 \<and> takes_effect (storageData loaded_store) c"
    by (simp add: three_edits_def takes_effect_def s ids object_prototype_keys_def)
  have ne: "three_edits \<noteq> []"
    by (simp add: three_edits_def)
  have l: "last three_edits = (150, ''2024-2025'', ''past'', ''q1'', JStr ''abc'')"
    by (simp add: three_edits_def)
  show ?thesis
    using debounced_burst_one_write [OF wf s(2) ok ne eff, where quiet = 300 and J = ?J
        and stamp = "\<lambda>t. sample_now" and t = 0 and ?t1.0 = "fst ?w1" and ?st1.0 = "snd ?w1"
        and ?t2.0 = "fst ?w2" and ?st2.0 = "snd ?w2"]
    by (simp add: l s sample_json_def)
qed

text \<open>
  C8, as stated, fails: a burst whose call names a year that does not exist schedules no
  save, and no write reaches the backend.
\<close>

theorem stray_burst_no_write:
  "snd (elapse (sample_json sample_docs) 300
         (run_calls (sample_json sample_docs) (\<lambda>t. sample_now) stray_edit (0, loaded_store)))
     = loaded_store
   \<and> writes (backend loaded_store) = []"
  by (simp add: stray_edit_def elapse_def loaded_store_def fresh_store_def working_backend_def
        saveAnswer_def one_year_def field_def js_get_def object_prototype_keys_def)



end
